theory Spec2Isabelle
  imports Complex_Main "HOL-Library.Word"
begin

unbundle bit_operations_syntax

section \<open>Constants of nbody.h\<close>

text \<open>
  The C type \<open>double\<close> is idealised as \<^typ>\<open>real\<close> in the physics and in the
  projection: every statement below about accelerations, velocities and positions is a
  statement of exact real arithmetic. Where only the stored bytes of a \<open>double\<close> matter
  (the binary trajectory dump) a sample is its 64-bit object representation.
  Array arguments (a pointer and a count in C) are lists; a count is kept as the separate
  \<open>int\<close> argument the C function has.
\<close>

definition WIDTH :: int where "WIDTH = 800"
definition HEIGHT :: int where "HEIGHT = 800"
definition STEPS :: int where "STEPS = 5000"
definition SOFTENING :: real where "SOFTENING = 0.1"

section \<open>Data structures\<close>

record body =
  body_x :: real
  body_y :: real
  body_vx :: real
  body_vy :: real
  body_ax :: real
  body_ay :: real
  body_mass :: real

section \<open>physics.c: the force kernel for bodies\<close>

text \<open>
  The body of the inner loop of \<open>compute_forces\<close> for one pair \<open>(i, j)\<close>. The locals
  \<open>dx\<close>, \<open>dy\<close>, \<open>dist_sq\<close>, \<open>dist\<close>, \<open>force\<close>, \<open>fx\<close>, \<open>fy\<close> are computed from the array
  as it is when the pair is reached; the four compound assignments are kept as four
  successive array updates.
\<close>

definition pair_fx :: "real \<Rightarrow> body list \<Rightarrow> nat \<Rightarrow> nat \<Rightarrow> real" where
  "pair_fx g bodies i j =
    (let dx = body_x (bodies ! j) - body_x (bodies ! i);
         dy = body_y (bodies ! j) - body_y (bodies ! i);
         dist_sq = dx * dx + dy * dy + SOFTENING * SOFTENING;
         dist = sqrt dist_sq;
         force = g / dist_sq
     in force * dx / dist)"

definition pair_fy :: "real \<Rightarrow> body list \<Rightarrow> nat \<Rightarrow> nat \<Rightarrow> real" where
  "pair_fy g bodies i j =
    (let dx = body_x (bodies ! j) - body_x (bodies ! i);
         dy = body_y (bodies ! j) - body_y (bodies ! i);
         dist_sq = dx * dx + dy * dy + SOFTENING * SOFTENING;
         dist = sqrt dist_sq;
         force = g / dist_sq
     in force * dy / dist)"

definition pair_force :: "real \<Rightarrow> nat \<Rightarrow> nat \<Rightarrow> body list \<Rightarrow> body list" where
  "pair_force g i j bodies =
    (let fx = pair_fx g bodies i j;
         fy = pair_fy g bodies i j;
         b1 = bodies[i := (bodies ! i)\<lparr>body_ax := body_ax (bodies ! i) + fx * body_mass (bodies ! j)\<rparr>];
         b2 = b1[i := (b1 ! i)\<lparr>body_ay := body_ay (b1 ! i) + fy * body_mass (b1 ! j)\<rparr>];
         b3 = b2[j := (b2 ! j)\<lparr>body_ax := body_ax (b2 ! j) - fx * body_mass (b2 ! i)\<rparr>];
         b4 = b3[j := (b3 ! j)\<lparr>body_ay := body_ay (b3 ! j) - fy * body_mass (b3 ! i)\<rparr>]
     in b4)"

text \<open>
  \<open>compute_forces\<close>: the reset loop over \<open>i = 0 .. n-1\<close>, then the nested loops over
  \<open>i = 0 .. n-1\<close> and \<open>j = i+1 .. n-1\<close>. A count \<open>n \<le> 0\<close> runs no iteration.
\<close>

definition compute_forces :: "body list \<Rightarrow> int \<Rightarrow> real \<Rightarrow> body list" where
  "compute_forces bodies n g =
    (let cleared = fold (\<lambda>i bs. bs[i := (bs ! i)\<lparr>body_ax := 0, body_ay := 0\<rparr>]) [0..<nat n] bodies
     in fold (\<lambda>i bs. fold (\<lambda>j. pair_force g i j) [Suc i..<nat n] bs) [0..<nat n] cleared)"

text \<open>
  \<open>update_bodies\<close>: the call of \<open>compute_forces\<close>, then the integration loop; the
  position assignment reads the velocity field that the statement before it has written.
\<close>

definition integrate_body :: "real \<Rightarrow> body \<Rightarrow> body" where
  "integrate_body dt b =
    (let b1 = b\<lparr>body_vx := body_vx b + body_ax b * dt\<rparr>;
         b2 = b1\<lparr>body_vy := body_vy b1 + body_ay b1 * dt\<rparr>;
         b3 = b2\<lparr>body_x := body_x b2 + body_vx b2 * dt\<rparr>;
         b4 = b3\<lparr>body_y := body_y b3 + body_vy b3 * dt\<rparr>
     in b4)"

definition update_bodies :: "body list \<Rightarrow> int \<Rightarrow> real \<Rightarrow> real \<Rightarrow> body list" where
  "update_bodies bodies n dt g =
    (let forced = compute_forces bodies n g
     in fold (\<lambda>i bs. bs[i := integrate_body dt (bs ! i)]) [0..<nat n] forced)"

section \<open>The specification's force sum\<close>

text \<open>
  The unordered pairs \<open>(i, j)\<close> with \<open>i < j < n\<close>, in ascending \<open>i\<close> and then
  ascending \<open>j\<close>.
\<close>

definition pair_order :: "nat \<Rightarrow> (nat \<times> nat) list" where
  "pair_order n = concat (map (\<lambda>i. map (\<lambda>j. (i, j)) [Suc i..<n]) [0..<n])"

text \<open>
  The per-unit-mass force vector \<open>(g/d2) \<cdot> (dx/d, dy/d)\<close> of the pair, with
  \<open>(dx, dy) = pos j - pos i\<close>, \<open>d2 = dx\<^sup>2 + dy\<^sup>2 + \<epsilon>\<^sup>2\<close>, \<open>\<epsilon> = 0.1\<close> and \<open>d = \<surd>d2\<close>.
\<close>

definition spec_d2 :: "body list \<Rightarrow> nat \<Rightarrow> nat \<Rightarrow> real" where
  "spec_d2 bodies i j =
     (body_x (bodies ! j) - body_x (bodies ! i))\<^sup>2 + (body_y (bodies ! j) - body_y (bodies ! i))\<^sup>2 + (0.1)\<^sup>2"

definition spec_force_x :: "real \<Rightarrow> body list \<Rightarrow> nat \<Rightarrow> nat \<Rightarrow> real" where
  "spec_force_x g bodies i j =
     (g / spec_d2 bodies i j) * ((body_x (bodies ! j) - body_x (bodies ! i)) / sqrt (spec_d2 bodies i j))"

definition spec_force_y :: "real \<Rightarrow> body list \<Rightarrow> nat \<Rightarrow> nat \<Rightarrow> real" where
  "spec_force_y g bodies i j =
     (g / spec_d2 bodies i j) * ((body_y (bodies ! j) - body_y (bodies ! i)) / sqrt (spec_d2 bodies i j))"

text \<open>
  What the pair \<open>(i, j)\<close> contributes to body \<open>k\<close>: the force vector scaled by the mass
  of \<open>j\<close> when \<open>k\<close> is \<open>i\<close>, its negation scaled by the mass of \<open>i\<close> when \<open>k\<close> is \<open>j\<close>,
  nothing otherwise.
\<close>

definition spec_contrib_x :: "real \<Rightarrow> body list \<Rightarrow> nat \<Rightarrow> nat \<times> nat \<Rightarrow> real" where
  "spec_contrib_x g bodies k p =
     (if k = fst p then spec_force_x g bodies (fst p) (snd p) * body_mass (bodies ! snd p)
      else if k = snd p then - (spec_force_x g bodies (fst p) (snd p) * body_mass (bodies ! fst p))
      else 0)"

definition spec_contrib_y :: "real \<Rightarrow> body list \<Rightarrow> nat \<Rightarrow> nat \<times> nat \<Rightarrow> real" where
  "spec_contrib_y g bodies k p =
     (if k = fst p then spec_force_y g bodies (fst p) (snd p) * body_mass (bodies ! snd p)
      else if k = snd p then - (spec_force_y g bodies (fst p) (snd p) * body_mass (bodies ! fst p))
      else 0)"

text \<open>
  Two arrays agree on the positions and masses of their first \<open>n\<close> bodies; velocities
  and accelerations are left free.
\<close>

definition same_geometry :: "nat \<Rightarrow> body list \<Rightarrow> body list \<Rightarrow> bool" where
  "same_geometry n bodies bodies' =
     (\<forall>m\<in>{0..<n}. body_x (bodies' ! m) = body_x (bodies ! m) \<and> body_y (bodies' ! m) = body_y (bodies ! m)
        \<and> body_mass (bodies' ! m) = body_mass (bodies ! m))"

definition spec_accel_x :: "real \<Rightarrow> body list \<Rightarrow> nat \<Rightarrow> nat \<Rightarrow> real" where
  "spec_accel_x g bodies n k = foldl (+) 0 (map (spec_contrib_x g bodies k) (pair_order n))"

definition spec_accel_y :: "real \<Rightarrow> body list \<Rightarrow> nat \<Rightarrow> nat \<Rightarrow> real" where
  "spec_accel_y g bodies n k = foldl (+) 0 (map (spec_contrib_y g bodies k) (pair_order n))"

section \<open>Newton's third law, as the specification words it\<close>

text \<open>The magnitude of a body's acceleration vector.\<close>

definition accel_mag :: "body \<Rightarrow> real" where
  "accel_mag b = sqrt (body_ax b * body_ax b + body_ay b * body_ay b)"

text \<open>
  Two acceleration vectors are antiparallel: they lie on one line (zero cross product)
  and do not point the same way (non-positive dot product). A zero vector is
  antiparallel to every vector.
\<close>

definition antiparallel :: "body \<Rightarrow> body \<Rightarrow> bool" where
  "antiparallel a b =
     (body_ax a * body_ay b - body_ay a * body_ax b = 0 \<and> body_ax a * body_ax b + body_ay a * body_ay b \<le> 0)"

section \<open>physics.c: rockets\<close>

text \<open>
  A rocket. The field type \<open>'d\<close> stands for C's \<open>double\<close>: \<^typ>\<open>real\<close> in the physics,
  the 64-bit object representation in the binary dump. The flag \<open>active\<close> is the C \<open>int\<close>
  it is in the source (zero means inactive). The two trail arrays are the allocated
  buffers, \<open>trail_length\<close> counts the samples in use. Each rocket owns its buffers: no
  two rockets share one.
\<close>

record 'd rocket =
  rocket_x :: 'd
  rocket_y :: 'd
  rocket_vx :: 'd
  rocket_vy :: 'd
  rocket_ax :: 'd
  rocket_ay :: 'd
  active :: int
  trail_x :: "'d list"
  trail_y :: "'d list"
  trail_length :: int
  trail_capacity :: int

text \<open>
  \<open>compute_rocket_forces\<close>. \<open>rocket_pull\<close> is the body of the inner loop (one body's
  pull on \<open>rockets[i]\<close>), \<open>rocket_forces_one\<close> the body of the outer loop.
\<close>

definition rocket_pull :: "real \<Rightarrow> body \<Rightarrow> real rocket \<Rightarrow> real rocket" where
  "rocket_pull g b r =
    (let dx = body_x b - rocket_x r;
         dy = body_y b - rocket_y r;
         dist_sq = dx * dx + dy * dy + SOFTENING * SOFTENING;
         dist = sqrt dist_sq;
         acc = g * body_mass b / dist_sq
     in r\<lparr>rocket_ax := rocket_ax r + acc * dx / dist, rocket_ay := rocket_ay r + acc * dy / dist\<rparr>)"

definition rocket_forces_one :: "real \<Rightarrow> body list \<Rightarrow> int \<Rightarrow> real rocket \<Rightarrow> real rocket" where
  "rocket_forces_one g bodies n_bodies r =
    (if active r = 0 then r
     else fold (\<lambda>j r'. rocket_pull g (bodies ! j) r') [0..<nat n_bodies]
            (r\<lparr>rocket_ax := 0, rocket_ay := 0\<rparr>))"

definition compute_rocket_forces ::
  "real rocket list \<Rightarrow> int \<Rightarrow> body list \<Rightarrow> int \<Rightarrow> real \<Rightarrow> real rocket list" where
  "compute_rocket_forces rockets n_rockets bodies n_bodies g =
     fold (\<lambda>i rs. rs[i := rocket_forces_one g bodies n_bodies (rs ! i)]) [0..<nat n_rockets] rockets"

text \<open>
  \<open>update_rockets\<close>: the body of the integration loop in its three stages: the velocity
  and position update, the trail store, the distance test. The message printed on
  deactivation is output only and is left out.
\<close>

definition advance_rocket :: "real \<Rightarrow> real rocket \<Rightarrow> real rocket" where
  "advance_rocket dt r =
    (let r1 = r\<lparr>rocket_vx := rocket_vx r + rocket_ax r * dt\<rparr>;
         r2 = r1\<lparr>rocket_vy := rocket_vy r1 + rocket_ay r1 * dt\<rparr>;
         r3 = r2\<lparr>rocket_x := rocket_x r2 + rocket_vx r2 * dt\<rparr>
     in r3\<lparr>rocket_y := rocket_y r3 + rocket_vy r3 * dt\<rparr>)"

definition store_trail :: "real rocket \<Rightarrow> real rocket" where
  "store_trail r =
    (if trail_length r < trail_capacity r
     then r\<lparr>trail_x := (trail_x r)[nat (trail_length r) := rocket_x r],
            trail_y := (trail_y r)[nat (trail_length r) := rocket_y r],
            trail_length := trail_length r + 1\<rparr>
     else r)"

definition deactivate_far :: "real rocket \<Rightarrow> real rocket" where
  "deactivate_far r =
    (let dist = sqrt (rocket_x r * rocket_x r + rocket_y r * rocket_y r)
     in if dist > 50.0 then r\<lparr>active := 0\<rparr> else r)"

definition integrate_rocket :: "real \<Rightarrow> real rocket \<Rightarrow> real rocket" where
  "integrate_rocket dt r =
    (if active r = 0 then r else deactivate_far (store_trail (advance_rocket dt r)))"

definition update_rockets ::
  "real rocket list \<Rightarrow> int \<Rightarrow> body list \<Rightarrow> int \<Rightarrow> real \<Rightarrow> real \<Rightarrow> real rocket list" where
  "update_rockets rockets n_rockets bodies n_bodies dt g =
    (let forced = compute_rocket_forces rockets n_rockets bodies n_bodies g
     in fold (\<lambda>i rs. rs[i := integrate_rocket dt (rs ! i)]) [0..<nat n_rockets] forced)"

text \<open>
  The storage a rocket needs for the calls above to stay inside its buffers: a
  non-negative length within the capacity, and buffers of at least the capacity.
\<close>

definition trail_ok :: "'d rocket \<Rightarrow> bool" where
  "trail_ok r =
     (0 \<le> trail_length r \<and> trail_length r \<le> trail_capacity r
      \<and> nat (trail_capacity r) \<le> length (trail_x r) \<and> nat (trail_capacity r) \<le> length (trail_y r))"

section \<open>The arithmetic of \<open>double\<close> where a result is converted to \<open>int\<close>\<close>

text \<open>
  The projection to pixels converts a \<open>double\<close> to an \<open>int\<close>, so there the value that is
  converted has to be the one the machine computes. A finite \<open>double\<close> is the real number
  it denotes (the two zeros are not told apart: they add, multiply and convert alike
  here). The format is IEEE 754 binary64: 53 significant bits, exponents from -1022 to
  1023, subnormal numbers below; each operation delivers the exact result rounded to the
  nearest \<open>double\<close>, a tie going to the even significand, and is rounded on its own (the
  product is not fused with the sum that follows it).
\<close>

text \<open>The position of the leading bit of a positive integer, and the same rounded upwards.\<close>

fun floor_log2 :: "nat \<Rightarrow> nat" where
  "floor_log2 n = (if n < 2 then 0 else Suc (floor_log2 (n div 2)))"

declare floor_log2.simps [simp del]

definition ceil_log2 :: "nat \<Rightarrow> nat" where
  "ceil_log2 n = (if n < 2 then 0 else Suc (floor_log2 (n - 1)))"

text \<open>
  The binary exponent of a real number other than zero: the \<open>e\<close> with
  \<open>2 ^ e \<le> \<bar>r\<bar> < 2 ^ (e + 1)\<close> (lemma \<open>double_exponent_bounds\<close>).
\<close>

definition double_exponent :: "real \<Rightarrow> int" where
  "double_exponent r =
     (if 1 \<le> \<bar>r\<bar> then int (floor_log2 (nat \<lfloor>\<bar>r\<bar>\<rfloor>))
      else - int (ceil_log2 (nat \<lceil>1 / \<bar>r\<bar>\<rceil>)))"

text \<open>
  The spacing of the \<open>double\<close>s around \<open>r\<close>: one unit in the 53rd significant bit, and
  \<open>2 ^ (- 1074)\<close> throughout the subnormal range.
\<close>

definition double_ulp :: "real \<Rightarrow> real" where
  "double_ulp r = 2 powi (max (double_exponent r) (- 1022) - 52)"

text \<open>Rounding to the nearest integer, a tie to the even one.\<close>

definition round_even :: "real \<Rightarrow> int" where
  "round_even x =
     (if x - of_int \<lfloor>x\<rfloor> < 1 / 2 then \<lfloor>x\<rfloor>
      else if 1 / 2 < x - of_int \<lfloor>x\<rfloor> then \<lfloor>x\<rfloor> + 1
      else if even \<lfloor>x\<rfloor> then \<lfloor>x\<rfloor> else \<lfloor>x\<rfloor> + 1)"

text \<open>
  The \<open>double\<close> an exact result is rounded to. \<open>None\<close> stands for a result that is not
  finite: the rounded magnitude reaches \<open>2 ^ 1024\<close> and the operation delivers an
  infinity.
\<close>

definition round_double :: "real \<Rightarrow> real option" where
  "round_double r =
     (let v = of_int (round_even (r / double_ulp r)) * double_ulp r
      in if \<bar>v\<bar> < 2 ^ 1024 then Some v else None)"

definition is_double :: "real \<Rightarrow> bool" where
  "is_double r = (round_double r = Some r)"

text \<open>The operators \<open>*\<close> and \<open>+\<close> on two finite \<open>double\<close>s.\<close>

definition fp_mul :: "real \<Rightarrow> real \<Rightarrow> real option" where
  "fp_mul a b = round_double (a * b)"

definition fp_add :: "real \<Rightarrow> real \<Rightarrow> real option" where
  "fp_add a b = round_double (a + b)"

text \<open>
  The value of a \<open>double\<close> object given by its 64 bits (sign, 11 exponent bits, 52
  fraction bits); \<open>None\<close> for an infinity or a NaN.
\<close>

definition double_value :: "64 word \<Rightarrow> real option" where
  "double_value w =
     (let e = unat (take_bit 11 (drop_bit 52 w));
          f = unat (take_bit 52 w);
          m = (if e = 0 then real f * 2 powi (- 1074) else (2 ^ 52 + real f) * 2 powi (int e - 1075))
      in if e = 2047 then None else Some (if bit w 63 then - m else m))"

text \<open>
  The conversion \<open>(int)\<close> of a finite \<open>double\<close> discards the fractional part (truncation
  towards zero). It is defined when the truncated value is an \<open>int\<close>, that is for
  \<open>- 2 ^ 31 - 1 < v < 2 ^ 31\<close>; \<open>None\<close> stands for the conversions C leaves undefined.
\<close>

definition c_int_cast :: "real \<Rightarrow> int option" where
  "c_int_cast v =
     (if - (2 ^ 31) - 1 < v \<and> v < 2 ^ 31 then Some (if v < 0 then \<lceil>v\<rceil> else \<lfloor>v\<rfloor>) else None)"

text \<open>
  The operand of the conversion in \<open>(int)(w * scale + extent / 2)\<close>: the integer quotient
  \<open>extent / 2\<close> is converted to \<open>double\<close> (exactly, for the extents in use), the product is
  rounded, then the sum.
\<close>

definition cast_operand :: "real \<Rightarrow> real \<Rightarrow> int \<Rightarrow> real option" where
  "cast_operand w scale extent =
     Option.bind (fp_mul w scale) (\<lambda>p. fp_add p (of_int (extent div 2)))"

section \<open>render.c\<close>

record pixel =
  pix_b :: "8 word"
  pix_g :: "8 word"
  pix_r :: "8 word"

text \<open>
  The projection written out at every use in \<open>render\<close>:
  \<open>(int)(x * scale + WIDTH / 2)\<close> and \<open>(int)(y * scale + HEIGHT / 2)\<close>. \<open>None\<close> stands
  for a conversion that C leaves undefined.
\<close>

definition render_px :: "real \<Rightarrow> real \<Rightarrow> int option" where
  "render_px wx scale = Option.bind (cast_operand wx scale WIDTH) c_int_cast"

definition render_py :: "real \<Rightarrow> real \<Rightarrow> int option" where
  "render_py wy scale = Option.bind (cast_operand wy scale HEIGHT) c_int_cast"

text \<open>The bounds-checked store that \<open>draw_line\<close> and \<open>draw_circle\<close> both make.\<close>

definition store_pixel :: "pixel list \<Rightarrow> int \<Rightarrow> int \<Rightarrow> 8 word \<Rightarrow> 8 word \<Rightarrow> 8 word \<Rightarrow> pixel list" where
  "store_pixel img x y r g b =
    (if x \<ge> 0 \<and> x < WIDTH \<and> y \<ge> 0 \<and> y < HEIGHT
     then img[nat (y * WIDTH + x) := (img ! nat (y * WIDTH + x))\<lparr>pix_r := r, pix_g := g, pix_b := b\<rparr>]
     else img)"

text \<open>
  \<open>draw_line\<close>: the \<open>while (1)\<close> loop as a partial function; \<open>None\<close> stands for a loop
  that never reaches its \<open>break\<close> (lemma \<open>draw_line_returns\<close> below shows that it always
  does). The coordinates are unbounded integers.
\<close>

partial_function (option) draw_line_loop ::
  "pixel list \<Rightarrow> int \<Rightarrow> int \<Rightarrow> int \<Rightarrow> int \<Rightarrow> int \<Rightarrow> int \<Rightarrow> int \<Rightarrow> int \<Rightarrow> int
    \<Rightarrow> 8 word \<Rightarrow> 8 word \<Rightarrow> 8 word \<Rightarrow> pixel list option" where
  "draw_line_loop img x y err x2 y2 dx dy sx sy r g b =
    (if x = x2 \<and> y = y2 then Some (store_pixel img x y r g b)
     else draw_line_loop (store_pixel img x y r g b)
            (if 2 * err > - dy then x + sx else x)
            (if 2 * err < dx then y + sy else y)
            ((if 2 * err > - dy then err - dy else err) + (if 2 * err < dx then dx else 0))
            x2 y2 dx dy sx sy r g b)"

definition draw_line ::
  "pixel list \<Rightarrow> int \<Rightarrow> int \<Rightarrow> int \<Rightarrow> int \<Rightarrow> 8 word \<Rightarrow> 8 word \<Rightarrow> 8 word \<Rightarrow> pixel list option" where
  "draw_line img x1 y1 x2 y2 r g b =
    (let dx = \<bar>x2 - x1\<bar>;
         dy = \<bar>y2 - y1\<bar>;
         sx = (if x1 < x2 then 1 else - 1);
         sy = (if y1 < y2 then 1 else - 1);
         err = dx - dy
     in draw_line_loop img x1 y1 err x2 y2 dx dy sx sy r g b)"

definition draw_circle ::
  "pixel list \<Rightarrow> int \<Rightarrow> int \<Rightarrow> int \<Rightarrow> 8 word \<Rightarrow> 8 word \<Rightarrow> 8 word \<Rightarrow> pixel list" where
  "draw_circle img cx cy radius r g b =
     fold (\<lambda>dy im.
        fold (\<lambda>dx im'.
           if dx * dx + dy * dy \<le> radius * radius
           then store_pixel im' (cx + dx) (cy + dy) r g b else im')
          [- radius..radius] im)
       [- radius..radius] img"








text \<open>
  The specification's projection: rounding to the nearest integer, about the centre
  \<open>width/2\<close>, \<open>height/2\<close>.
\<close>

definition spec_pixel :: "real \<Rightarrow> real \<Rightarrow> int \<Rightarrow> int" where
  "spec_pixel w scale extent = round (w * scale + of_int extent / 2)"

section \<open>The core operations on one simulation state\<close>

record world =
  w_bodies :: "body list"
  w_rockets :: "real rocket list"
  w_img :: "pixel list"









section \<open>init.c, file_io.c and main.c: setting rockets up and running the steps\<close>

definition DT :: real where "DT = 0.01"
definition FRAMES :: int where "FRAMES = 100"
definition G_CONST :: real where "G_CONST = 1.0"
definition MAX_ROCKETS :: int where "MAX_ROCKETS = 10"

record sim_config =
  cfg_dt :: real
  cfg_steps :: int
  cfg_frames :: int
  cfg_save_interval :: int
  cfg_g :: real

text \<open>The configuration \<open>main\<close> starts from: \<open>{DT, STEPS, FRAMES, STEPS/FRAMES, G}\<close>.\<close>

definition default_config :: sim_config where
  "default_config =
     \<lparr>cfg_dt = DT, cfg_steps = STEPS, cfg_frames = FRAMES, cfg_save_interval = STEPS div FRAMES, cfg_g = G_CONST\<rparr>"

text \<open>
  \<open>malloc(STEPS * sizeof(double))\<close>: a buffer of \<open>STEPS\<close> cells. Its contents are
  indeterminate in C; zeros stand for them, and only cells that have been written are
  ever read.
\<close>

definition malloc_doubles :: "int \<Rightarrow> real list" where
  "malloc_doubles n = replicate (nat n) 0"

text \<open>
  The rocket record both setup functions write: position and velocity as given, zero
  acceleration, active, two fresh buffers of \<open>STEPS\<close> cells, and the start position
  stored as the first trail sample.
\<close>

definition new_rocket :: "real \<Rightarrow> real \<Rightarrow> real \<Rightarrow> real \<Rightarrow> real rocket" where
  "new_rocket x y vx vy =
     \<lparr>rocket_x = x, rocket_y = y, rocket_vx = vx, rocket_vy = vy, rocket_ax = 0, rocket_ay = 0,
      active = 1,
      trail_x = (malloc_doubles STEPS)[0 := x],
      trail_y = (malloc_doubles STEPS)[0 := y],
      trail_length = 1,
      trail_capacity = STEPS\<rparr>"

text \<open>
  \<open>init_rockets_default\<close> writes \<open>rockets[0]\<close> and sets the count to 1: a rocket at the
  perihelion of an ellipse of semi-major axis 5 and eccentricity 0.6 about a central mass
  of 100.
\<close>

definition init_rockets_default :: "real rocket list \<Rightarrow> real rocket list \<times> int" where
  "init_rockets_default rockets =
    (let semi_major = 5.0;
         eccentricity = 0.6;
         r = semi_major * (1.0 - eccentricity);
         M_central = 100.0;
         v_perihelion = sqrt (G_CONST * M_central * (1.0 + eccentricity) / (semi_major * (1.0 - eccentricity)))
     in (rockets[0 := new_rocket r 0.0 0.0 v_perihelion], 1))"

text \<open>
  \<open>load_rockets\<close>. The text of the file is taken as already split into lines and each
  line as already scanned: \<open>Some (x, y, vx, vy)\<close> for a line on which \<open>sscanf\<close> reads four
  numbers, \<open>None\<close> for a comment, an empty line or a line it cannot read (all three are
  passed over). A file that cannot be opened is \<open>None\<close> and gives the count \<open>-1\<close>.
\<close>

fun load_rockets_loop ::
  "(real \<times> real \<times> real \<times> real) option list \<Rightarrow> real rocket list \<Rightarrow> int \<Rightarrow> int \<Rightarrow> real rocket list \<times> int" where
  "load_rockets_loop [] rockets count max_rockets = (rockets, count)"
| "load_rockets_loop (l # ls) rockets count max_rockets =
    (if count < max_rockets
     then (case l of
             None \<Rightarrow> load_rockets_loop ls rockets count max_rockets
           | Some (x, y, vx, vy) \<Rightarrow>
               load_rockets_loop ls (rockets[nat count := new_rocket x y vx vy]) (count + 1) max_rockets)
     else (rockets, count))"

definition load_rockets ::
  "(real \<times> real \<times> real \<times> real) option list option \<Rightarrow> real rocket list \<Rightarrow> int \<Rightarrow> real rocket list \<times> int" where
  "load_rockets file rockets max_rockets =
    (case file of
       None \<Rightarrow> (rockets, - 1)
     | Some ls \<Rightarrow> load_rockets_loop ls rockets 0 max_rockets)"

text \<open>
  One pass of the loop of \<open>main\<close>: \<open>update_bodies\<close>, then \<open>update_rockets\<close> on the bodies
  just advanced. The frame written on some passes changes neither array. \<open>main_steps k\<close>
  is the state after \<open>k\<close> passes.
\<close>

definition main_step ::
  "sim_config \<Rightarrow> int \<Rightarrow> int \<Rightarrow> body list \<times> real rocket list \<Rightarrow> body list \<times> real rocket list" where
  "main_step config n_bodies n_rockets st =
    (let bodies = update_bodies (fst st) n_bodies (cfg_dt config) (cfg_g config);
         rockets = update_rockets (snd st) n_rockets bodies n_bodies (cfg_dt config) (cfg_g config)
     in (bodies, rockets))"

fun main_steps ::
  "nat \<Rightarrow> sim_config \<Rightarrow> int \<Rightarrow> int \<Rightarrow> body list \<times> real rocket list \<Rightarrow> body list \<times> real rocket list" where
  "main_steps 0 config n_bodies n_rockets st = st"
| "main_steps (Suc k) config n_bodies n_rockets st =
     main_step config n_bodies n_rockets (main_steps k config n_bodies n_rockets st)"

section \<open>Sample states\<close>

text \<open>
  A body of mass 27 just beside a fast active rocket that is one step from the edge of
  the simulation area, a frozen rocket beyond the edge, an active rocket at rest whose
  trail is full, and a state holding the body, the first two rockets and a black image.
\<close>

definition sample_body :: body where
  "sample_body =
     \<lparr>body_x = 49.2, body_y = 0.2, body_vx = 0, body_vy = 0, body_ax = 0, body_ay = 0, body_mass = 27\<rparr>"

definition sample_active :: "real rocket" where
  "sample_active =
     \<lparr>rocket_x = 49, rocket_y = 0, rocket_vx = 1098, rocket_vy = - 2, rocket_ax = 5, rocket_ay = 5,
      active = 1, trail_x = [49, 0, 0], trail_y = [0, 0, 0], trail_length = 1, trail_capacity = 3\<rparr>"

definition sample_frozen :: "real rocket" where
  "sample_frozen =
     \<lparr>rocket_x = 70, rocket_y = 0, rocket_vx = 2, rocket_vy = 3, rocket_ax = 5, rocket_ay = 5,
      active = 0, trail_x = [70, 0, 0], trail_y = [0, 0, 0], trail_length = 1, trail_capacity = 3\<rparr>"

definition sample_full :: "real rocket" where
  "sample_full =
     \<lparr>rocket_x = 1, rocket_y = 0, rocket_vx = 0, rocket_vy = 0, rocket_ax = 0, rocket_ay = 0,
      active = 1, trail_x = [1, 1], trail_y = [0, 0], trail_length = 2, trail_capacity = 2\<rparr>"

definition sample_world :: world where
  "sample_world =
     \<lparr>w_bodies = [sample_body], w_rockets = [sample_active, sample_frozen],
      w_img = replicate (nat (WIDTH * HEIGHT)) \<lparr>pix_b = 0, pix_g = 0, pix_r = 0\<rparr>\<rparr>"

section \<open>file_io.c and tools/plot_trails.c: the binary trajectory dump\<close>

type_synonym byte = "8 word"

text \<open>
  \<open>fwrite\<close> copies the object representation of its argument. \<open>le_bytes n v\<close> is the
  \<open>n\<close>-byte two's complement representation of \<open>v\<close>, least significant byte first (the
  byte order of the machines the dump is produced on; writer and reader run on the same
  machine). An \<open>int\<close> takes four bytes; a \<open>double\<close>, given by its 64 bits, takes eight.
\<close>

definition le_bytes :: "nat \<Rightarrow> int \<Rightarrow> byte list" where
  "le_bytes n v = map (\<lambda>k. word_of_int (drop_bit (8 * k) v)) [0..<n]"

definition int_bytes :: "int \<Rightarrow> byte list" where
  "int_bytes v = le_bytes 4 v"

definition double_bytes :: "64 word \<Rightarrow> byte list" where
  "double_bytes d = le_bytes 8 (uint d)"

text \<open>
  \<open>save_rocket_trails_bin\<close>: the count, then for each rocket its \<open>trail_length\<close> and
  the first \<open>trail_length\<close> cells of \<open>trail_x\<close> and of \<open>trail_y\<close>. The first argument says
  whether \<open>fopen\<close> succeeded; when it did not nothing is written.
\<close>

definition trail_record_bytes :: "64 word rocket \<Rightarrow> byte list" where
  "trail_record_bytes r =
     int_bytes (trail_length r)
     @ concat (map double_bytes (take (nat (trail_length r)) (trail_x r)))
     @ concat (map double_bytes (take (nat (trail_length r)) (trail_y r)))"

definition save_rocket_trails_bin :: "bool \<Rightarrow> 64 word rocket list \<Rightarrow> int \<Rightarrow> byte list option" where
  "save_rocket_trails_bin opened rockets n =
    (if \<not> opened then None
     else Some (int_bytes n @ concat (map (\<lambda>i. trail_record_bytes (rockets ! i)) [0..<nat n])))"

text \<open>
  The reader of the plotting tool. \<open>fread\<close> of one \<open>int\<close> and of \<open>n\<close> \<open>double\<close>s from
  the rest of the file: \<open>None\<close> when the file ends before the items are complete.
\<close>

definition le_value :: "byte list \<Rightarrow> int" where
  "le_value bs = horner_sum uint 256 bs"

definition fread_int :: "byte list \<Rightarrow> (int \<times> byte list) option" where
  "fread_int bs =
    (if length bs < 4 then None
     else Some (sint (word_of_int (le_value (take 4 bs)) :: 32 word), drop 4 bs))"

definition fread_doubles :: "nat \<Rightarrow> byte list \<Rightarrow> (64 word list \<times> byte list) option" where
  "fread_doubles n bs =
    (if length bs < 8 * n then None
     else Some (map (\<lambda>k. word_of_int (le_value (take 8 (drop (8 * k) bs)))) [0..<n], drop (8 * n) bs))"

text \<open>
  The loop over the rockets in \<open>main\<close> of the tool, as far as it reads: each pass reads
  a length and the two arrays, and the loop is left (\<open>break\<close>) at the first read that
  falls short. A negative length is taken to fail the allocation, which also leaves the
  loop; every other allocation is taken to succeed. The result is the list of the trails
  read, in file order; the whole read is \<open>None\<close> when the rocket count cannot be read.
\<close>

fun read_trails_loop :: "nat \<Rightarrow> byte list \<Rightarrow> (64 word list \<times> 64 word list) list" where
  "read_trails_loop 0 bs = []"
| "read_trails_loop (Suc k) bs =
    (case fread_int bs of
       None \<Rightarrow> []
     | Some (trail_length', bs1) \<Rightarrow>
         if trail_length' < 0 then []
         else (case fread_doubles (nat trail_length') bs1 of
                 None \<Rightarrow> []
               | Some (tx, bs2) \<Rightarrow>
                   (case fread_doubles (nat trail_length') bs2 of
                      None \<Rightarrow> []
                    | Some (ty, bs3) \<Rightarrow> (tx, ty) # read_trails_loop k bs3)))"

definition plot_read_trails :: "byte list \<Rightarrow> (64 word list \<times> 64 word list) list option" where
  "plot_read_trails bs =
    (case fread_int bs of
       None \<Rightarrow> None
     | Some (n_rockets, bs1) \<Rightarrow> Some (read_trails_loop (nat n_rockets) bs1))"

text \<open>The values an \<open>int\<close> can hold.\<close>

definition int32_range :: "int \<Rightarrow> bool" where
  "int32_range v = (- (2 ^ 31) \<le> v \<and> v < 2 ^ 31)"

section \<open>bmp_io.c\<close>

text \<open>
  \<open>write_bmp\<close>. Its \<open>int\<close>s are unbounded integers here, so the model is the program as
  long as no product or sum leaves the range of \<open>int\<close>. The header is the initialiser of
  the 54-byte array as written, each entry converted to \<open>unsigned char\<close>.
\<close>

definition bmp_header :: "int \<Rightarrow> int \<Rightarrow> byte list" where
  "bmp_header w h =
    (let row_size = (w * 3 + 3) AND NOT 3;
         img_size = row_size * h;
         file_size = 54 + img_size
     in map word_of_int
         [66, 77,
          file_size AND 0xFF, drop_bit 8 file_size AND 0xFF,
          drop_bit 16 file_size AND 0xFF, drop_bit 24 file_size AND 0xFF,
          0, 0, 0, 0,
          54, 0, 0, 0,
          40, 0, 0, 0,
          w AND 0xFF, drop_bit 8 w AND 0xFF, drop_bit 16 w AND 0xFF, drop_bit 24 w AND 0xFF,
          h AND 0xFF, drop_bit 8 h AND 0xFF, drop_bit 16 h AND 0xFF, drop_bit 24 h AND 0xFF,
          1, 0,
          24, 0,
          0, 0, 0, 0,
          img_size AND 0xFF, drop_bit 8 img_size AND 0xFF,
          drop_bit 16 img_size AND 0xFF, drop_bit 24 img_size AND 0xFF,
          0, 0, 0, 0,
          0, 0, 0, 0,
          0, 0, 0, 0,
          0, 0, 0, 0])"

text \<open>A \<open>Pixel\<close> is three bytes in memory, in the order of its fields \<open>b\<close>, \<open>g\<close>, \<open>r\<close>.\<close>

definition pixel_bytes :: "pixel \<Rightarrow> byte list" where
  "pixel_bytes p = [pix_b p, pix_g p, pix_r p]"

definition bmp_row :: "pixel list \<Rightarrow> int \<Rightarrow> int \<Rightarrow> int \<Rightarrow> byte list" where
  "bmp_row img w pad_size y =
     concat (map (\<lambda>x. pixel_bytes (img ! nat (y * w + x))) [0..w - 1])
     @ (if pad_size > 0 then replicate (nat pad_size) 0 else [])"

definition write_bmp :: "bool \<Rightarrow> pixel list \<Rightarrow> int \<Rightarrow> int \<Rightarrow> byte list option" where
  "write_bmp opened img w h =
    (if \<not> opened then None
     else (let row_size = (w * 3 + 3) AND NOT 3;
               pad_size = row_size - w * 3
           in Some (bmp_header w h @ concat (map (bmp_row img w pad_size) (rev [0..h - 1])))))"

section \<open>The image container as the specification lays it out\<close>

definition u16_le :: "int \<Rightarrow> byte list" where
  "u16_le v = [word_of_int (v mod 256), word_of_int (v div 256 mod 256)]"

definition u32_le :: "int \<Rightarrow> byte list" where
  "u32_le v = [word_of_int (v mod 256), word_of_int (v div 256 mod 256),
               word_of_int (v div 65536 mod 256), word_of_int (v div 16777216 mod 256)]"

definition row_stride :: "int \<Rightarrow> int" where
  "row_stride w = (w * 3 + 3) AND NOT 3"

text \<open>
  The header field by field as the specification lists it, with its two reserved
  \<open>u32\<close> fields.
\<close>

definition spec_bmp_header :: "int \<Rightarrow> int \<Rightarrow> byte list" where
  "spec_bmp_header w h =
     [66, 77] @ u32_le (54 + row_stride w * h)
     @ u32_le 0 @ u32_le 0
     @ u32_le 54 @ u32_le 40 @ u32_le w @ u32_le h
     @ u16_le 1 @ u16_le 24 @ u32_le 0 @ u32_le (row_stride w * h)
     @ u32_le 0 @ u32_le 0 @ u32_le 0 @ u32_le 0"

text \<open>The same list with two reserved \<open>u16\<close> fields in place of the two \<open>u32\<close>.\<close>

definition bmp_header_fields :: "int \<Rightarrow> int \<Rightarrow> byte list" where
  "bmp_header_fields w h =
     [66, 77] @ u32_le (54 + row_stride w * h)
     @ u16_le 0 @ u16_le 0
     @ u32_le 54 @ u32_le 40 @ u32_le w @ u32_le h
     @ u16_le 1 @ u16_le 24 @ u32_le 0 @ u32_le (row_stride w * h)
     @ u32_le 0 @ u32_le 0 @ u32_le 0 @ u32_le 0"

text \<open>
  The pixel data: rows from the bottom (\<open>y = h - 1\<close>) to the top, each row \<open>w\<close> triples
  blue, green, red followed by zero bytes up to the row stride.
\<close>

definition spec_bmp_pixels :: "pixel list \<Rightarrow> int \<Rightarrow> int \<Rightarrow> byte list" where
  "spec_bmp_pixels img w h =
     concat (map (\<lambda>y. concat (map (\<lambda>x. [pix_b (img ! (y * nat w + x)), pix_g (img ! (y * nat w + x)),
                                         pix_r (img ! (y * nat w + x))]) [0..<nat w])
                      @ replicate (nat (row_stride w - 3 * w)) 0)
                (rev [0..<nat h]))"

section \<open>tools/plot_trails.c: the drawing\<close>

text \<open>
  The projection as the plotting tool writes it, with its own \<open>WIDTH\<close> and \<open>HEIGHT\<close> of
  800: \<open>(int)(trail_x[j] * scale + WIDTH / 2)\<close> and \<open>(int)(trail_y[j] * scale + HEIGHT / 2)\<close>.
\<close>

definition plot_px :: "real \<Rightarrow> real \<Rightarrow> int option" where
  "plot_px wx scale = Option.bind (cast_operand wx scale 800) c_int_cast"

definition plot_py :: "real \<Rightarrow> real \<Rightarrow> int option" where
  "plot_py wy scale = Option.bind (cast_operand wy scale 800) c_int_cast"

text \<open>
  The image before the first trail: the zeroed allocation, the two grid loops and the
  centre marker. \<open>draw_line\<close> and \<open>draw_circle\<close> of the tool are, statement for statement,
  the two functions of \<open>render.c\<close>.
\<close>

definition plot_grid_pixel :: "pixel list \<Rightarrow> nat \<Rightarrow> pixel list" where
  "plot_grid_pixel img k = img[k := (img ! k)\<lparr>pix_r := 30, pix_g := 30, pix_b := 30\<rparr>]"

definition plot_background :: "pixel list" where
  "plot_background =
    (let img = replicate (800 * 800) \<lparr>pix_b = 0, pix_g = 0, pix_r = 0\<rparr>;
         cols = fold (\<lambda>i im. fold (\<lambda>j im'. plot_grid_pixel im' (j * 800 + i)) [0..<800] im)
                  (map (\<lambda>k. 50 * k) [0..<16]) img;
         rows = fold (\<lambda>j im. fold (\<lambda>i im'. plot_grid_pixel im' (j * 800 + i)) [0..<800] im)
                  (map (\<lambda>k. 50 * k) [0..<16]) cols
     in draw_circle rows (800 div 2) (800 div 2) 5 255 255 100)"

definition plot_colors :: "(int \<times> int \<times> int) list" where
  "plot_colors =
    [(255, 100, 100), (100, 255, 100), (100, 100, 255), (255, 255, 100), (255, 100, 255),
     (100, 255, 255), (255, 150, 100), (150, 100, 255), (100, 255, 150), (255, 100, 150)]"

text \<open>
  One pass of the loop over the rockets, after its reads: \<open>tx\<close> and \<open>ty\<close> are the two
  arrays read, of \<open>trail_length\<close> samples each, as the bits the file holds. The segments
  are drawn first, then the start marker, then the end marker. \<open>None\<close> stands for a pass
  C leaves undefined: a sample that is not finite or that projects outside \<open>int\<close>, and
  the read of \<open>trail_x[0]\<close> when the trail is empty.
\<close>

definition plot_segment ::
  "nat \<Rightarrow> 64 word list \<Rightarrow> 64 word list \<Rightarrow> real \<Rightarrow> nat \<Rightarrow> pixel list \<Rightarrow> pixel list option" where
  "plot_segment i tx ty scale j img =
    Option.bind (Option.bind (double_value (tx ! j)) (\<lambda>x. plot_px x scale)) (\<lambda>px1.
    Option.bind (Option.bind (double_value (ty ! j)) (\<lambda>y. plot_py y scale)) (\<lambda>py1.
    Option.bind (Option.bind (double_value (tx ! (j + 1))) (\<lambda>x. plot_px x scale)) (\<lambda>px2.
    Option.bind (Option.bind (double_value (ty ! (j + 1))) (\<lambda>y. plot_py y scale)) (\<lambda>py2.
      (case plot_colors ! (i mod 10) of
         (r, g, b) \<Rightarrow>
           (let brightness = 100 + (155 * int j) div int (length tx)
            in draw_line img px1 py1 px2 py2
                 (word_of_int ((r * brightness) div 255))
                 (word_of_int ((g * brightness) div 255))
                 (word_of_int ((b * brightness) div 255))))))))"

definition plot_trail ::
  "real \<Rightarrow> nat \<Rightarrow> 64 word list \<times> 64 word list \<Rightarrow> pixel list \<Rightarrow> pixel list option" where
  "plot_trail scale i trail img =
    (case trail of
       (tx, ty) \<Rightarrow>
         if length tx = 0 then None
         else
           Option.bind
             (fold (\<lambda>j im. Option.bind im (plot_segment i tx ty scale j)) [0..<length tx - 1] (Some img))
             (\<lambda>img1.
           Option.bind (Option.bind (double_value (tx ! 0)) (\<lambda>x. plot_px x scale)) (\<lambda>start_x.
           Option.bind (Option.bind (double_value (ty ! 0)) (\<lambda>y. plot_py y scale)) (\<lambda>start_y.
           Option.bind (Option.bind (double_value (tx ! (length tx - 1))) (\<lambda>x. plot_px x scale)) (\<lambda>end_x.
           Option.bind (Option.bind (double_value (ty ! (length tx - 1))) (\<lambda>y. plot_py y scale)) (\<lambda>end_y.
             (case plot_colors ! (i mod 10) of
                (r, g, b) \<Rightarrow>
                  Some (draw_circle (draw_circle img1 start_x start_y 4 100 255 100)
                          end_x end_y 6 (word_of_int r) (word_of_int g) (word_of_int b)))))))))"

text \<open>
  The image the tool hands to \<open>write_bmp\<close> when its loop has read the trails \<open>trails\<close>
  (the result of \<open>plot_read_trails\<close>): the passes in file order, at the scale 50.
\<close>

definition plot_draw_trails :: "(64 word list \<times> 64 word list) list \<Rightarrow> pixel list option" where
  "plot_draw_trails trails =
    fold (\<lambda>i im. Option.bind im (plot_trail 50 i (trails ! i))) [0..<length trails] (Some plot_background)"

section \<open>Properties of the force kernel\<close>

lemma fold_update_length:
  "length (fold (\<lambda>i ys. ys[i := F i ys]) js xs) = length xs"
  by (induction js arbitrary: xs) simp_all

lemma fold_index_length:
  "length (fold (\<lambda>i ys. ys[i := f (ys ! i)]) [0..<n] xs) = length xs"
  by (induction n) auto

lemma fold_index_nth:
  "k < length xs \<Longrightarrow>
   fold (\<lambda>i ys. ys[i := f (ys ! i)]) [0..<n] xs ! k = (if k < n then f (xs ! k) else xs ! k)"
  by (induction n) (auto simp: nth_list_update fold_index_length less_Suc_eq)

lemma nested_fold_pairs:
  "fold (\<lambda>i bs. fold (\<lambda>j. F i j) (js i) bs) is bs0 =
   fold (\<lambda>p. F (fst p) (snd p)) (concat (map (\<lambda>i. map (\<lambda>j. (i, j)) (js i)) is)) bs0"
  by (induction "is" arbitrary: bs0) (auto simp: fold_map comp_def)

lemma pair_order_bounds: "p \<in> set (pair_order n) \<Longrightarrow> fst p < snd p \<and> snd p < n"
  by (auto simp: pair_order_def)

lemma pair_force_length: "length (pair_force g i j bs) = length bs"
  by (simp add: pair_force_def Let_def)

lemma nth_update_frame:
  assumes "sel (f (bs ! i)) = sel (bs ! i)"
  shows "sel (bs[i := f (bs ! i)] ! m) = sel (bs ! m)"
  using assms by (cases "i < length bs") (auto simp: nth_list_update not_less list_update_beyond)

lemma nth_update_ax:
  "body_x (bs[i := (bs ! i)\<lparr>body_ax := v\<rparr>] ! m) = body_x (bs ! m)"
  "body_y (bs[i := (bs ! i)\<lparr>body_ax := v\<rparr>] ! m) = body_y (bs ! m)"
  "body_mass (bs[i := (bs ! i)\<lparr>body_ax := v\<rparr>] ! m) = body_mass (bs ! m)"
  "body_ay (bs[i := (bs ! i)\<lparr>body_ax := v\<rparr>] ! m) = body_ay (bs ! m)"
  by (rule nth_update_frame, simp)+

lemma nth_update_ay:
  "body_x (bs[i := (bs ! i)\<lparr>body_ay := v\<rparr>] ! m) = body_x (bs ! m)"
  "body_y (bs[i := (bs ! i)\<lparr>body_ay := v\<rparr>] ! m) = body_y (bs ! m)"
  "body_mass (bs[i := (bs ! i)\<lparr>body_ay := v\<rparr>] ! m) = body_mass (bs ! m)"
  "body_ax (bs[i := (bs ! i)\<lparr>body_ay := v\<rparr>] ! m) = body_ax (bs ! m)"
  by (rule nth_update_frame, simp)+

lemma pair_force_steps:
  obtains b1 b2 b3 where
    "b1 = bs[i := (bs ! i)\<lparr>body_ax := body_ax (bs ! i) + pair_fx g bs i j * body_mass (bs ! j)\<rparr>]"
    "b2 = b1[i := (b1 ! i)\<lparr>body_ay := body_ay (b1 ! i) + pair_fy g bs i j * body_mass (b1 ! j)\<rparr>]"
    "b3 = b2[j := (b2 ! j)\<lparr>body_ax := body_ax (b2 ! j) - pair_fx g bs i j * body_mass (b2 ! i)\<rparr>]"
    "pair_force g i j bs = b3[j := (b3 ! j)\<lparr>body_ay := body_ay (b3 ! j) - pair_fy g bs i j * body_mass (b3 ! i)\<rparr>]"
  by (simp only: pair_force_def Let_def)

lemma pair_force_geom:
  "body_x (pair_force g i j bs ! m) = body_x (bs ! m)"
  "body_y (pair_force g i j bs ! m) = body_y (bs ! m)"
  "body_mass (pair_force g i j bs ! m) = body_mass (bs ! m)"
proof -
  obtain b1 b2 b3 where
    b1: "b1 = bs[i := (bs ! i)\<lparr>body_ax := body_ax (bs ! i) + pair_fx g bs i j * body_mass (bs ! j)\<rparr>]" and
    b2: "b2 = b1[i := (b1 ! i)\<lparr>body_ay := body_ay (b1 ! i) + pair_fy g bs i j * body_mass (b1 ! j)\<rparr>]" and
    b3: "b3 = b2[j := (b2 ! j)\<lparr>body_ax := body_ax (b2 ! j) - pair_fx g bs i j * body_mass (b2 ! i)\<rparr>]" and
    pf: "pair_force g i j bs = b3[j := (b3 ! j)\<lparr>body_ay := body_ay (b3 ! j) - pair_fy g bs i j * body_mass (b3 ! i)\<rparr>]"
    by (rule pair_force_steps)
  have g1: "body_x (b1 ! m) = body_x (bs ! m)" "body_y (b1 ! m) = body_y (bs ! m)"
           "body_mass (b1 ! m) = body_mass (bs ! m)"
    unfolding b1 by (rule nth_update_ax)+
  have g2: "body_x (b2 ! m) = body_x (b1 ! m)" "body_y (b2 ! m) = body_y (b1 ! m)"
           "body_mass (b2 ! m) = body_mass (b1 ! m)"
    unfolding b2 by (rule nth_update_ay)+
  have g3: "body_x (b3 ! m) = body_x (b2 ! m)" "body_y (b3 ! m) = body_y (b2 ! m)"
           "body_mass (b3 ! m) = body_mass (b2 ! m)"
    unfolding b3 by (rule nth_update_ax)+
  have g4: "body_x (pair_force g i j bs ! m) = body_x (b3 ! m)"
           "body_y (pair_force g i j bs ! m) = body_y (b3 ! m)"
           "body_mass (pair_force g i j bs ! m) = body_mass (b3 ! m)"
    unfolding pf by (rule nth_update_ay)+
  show "body_x (pair_force g i j bs ! m) = body_x (bs ! m)"
    by (simp only: g1 g2 g3 g4)
  show "body_y (pair_force g i j bs ! m) = body_y (bs ! m)"
    by (simp only: g1 g2 g3 g4)
  show "body_mass (pair_force g i j bs ! m) = body_mass (bs ! m)"
    by (simp only: g1 g2 g3 g4)
qed

lemma pair_force_ax:
  assumes "i \<noteq> j" "i < length bs" "j < length bs"
  shows "body_ax (pair_force g i j bs ! k) =
     body_ax (bs ! k) + (if k = i then pair_fx g bs i j * body_mass (bs ! j)
                         else if k = j then - (pair_fx g bs i j * body_mass (bs ! i)) else 0)"
proof -
  obtain b1 b2 b3 where
    b1: "b1 = bs[i := (bs ! i)\<lparr>body_ax := body_ax (bs ! i) + pair_fx g bs i j * body_mass (bs ! j)\<rparr>]" and
    b2: "b2 = b1[i := (b1 ! i)\<lparr>body_ay := body_ay (b1 ! i) + pair_fy g bs i j * body_mass (b1 ! j)\<rparr>]" and
    b3: "b3 = b2[j := (b2 ! j)\<lparr>body_ax := body_ax (b2 ! j) - pair_fx g bs i j * body_mass (b2 ! i)\<rparr>]" and
    pf: "pair_force g i j bs = b3[j := (b3 ! j)\<lparr>body_ay := body_ay (b3 ! j) - pair_fy g bs i j * body_mass (b3 ! i)\<rparr>]"
    by (rule pair_force_steps)
  have l1: "length b1 = length bs" unfolding b1 by simp
  have l2: "length b2 = length bs" unfolding b2 using l1 by simp
  have a1: "body_ax (b1 ! k) = body_ax (bs ! k) + (if k = i then pair_fx g bs i j * body_mass (bs ! j) else 0)"
    unfolding b1 using assms by (simp add: nth_list_update)
  have a2: "body_ax (b2 ! k) = body_ax (b1 ! k)" for k
    unfolding b2 by (rule nth_update_ay)
  have m2: "body_mass (b2 ! i) = body_mass (bs ! i)"
    unfolding b2 b1 by (simp only: nth_update_ax nth_update_ay)
  have a3: "body_ax (b3 ! k) = body_ax (b2 ! k) - (if k = j then pair_fx g bs i j * body_mass (bs ! i) else 0)"
    unfolding b3 using assms l2 by (simp add: nth_list_update m2)
  have a4: "body_ax (pair_force g i j bs ! k) = body_ax (b3 ! k)"
    unfolding pf by (rule nth_update_ay)
  show ?thesis using assms by (simp add: a1 a2 a3 a4)
qed

lemma pair_force_ay:
  assumes "i \<noteq> j" "i < length bs" "j < length bs"
  shows "body_ay (pair_force g i j bs ! k) =
     body_ay (bs ! k) + (if k = i then pair_fy g bs i j * body_mass (bs ! j)
                         else if k = j then - (pair_fy g bs i j * body_mass (bs ! i)) else 0)"
proof -
  obtain b1 b2 b3 where
    b1: "b1 = bs[i := (bs ! i)\<lparr>body_ax := body_ax (bs ! i) + pair_fx g bs i j * body_mass (bs ! j)\<rparr>]" and
    b2: "b2 = b1[i := (b1 ! i)\<lparr>body_ay := body_ay (b1 ! i) + pair_fy g bs i j * body_mass (b1 ! j)\<rparr>]" and
    b3: "b3 = b2[j := (b2 ! j)\<lparr>body_ax := body_ax (b2 ! j) - pair_fx g bs i j * body_mass (b2 ! i)\<rparr>]" and
    pf: "pair_force g i j bs = b3[j := (b3 ! j)\<lparr>body_ay := body_ay (b3 ! j) - pair_fy g bs i j * body_mass (b3 ! i)\<rparr>]"
    by (rule pair_force_steps)
  have l1: "length b1 = length bs" unfolding b1 by simp
  have l2: "length b2 = length bs" unfolding b2 using l1 by simp
  have l3: "length b3 = length bs" unfolding b3 using l2 by simp
  have a1: "body_ay (b1 ! k) = body_ay (bs ! k)" for k
    unfolding b1 by (rule nth_update_ax)
  have m1: "body_mass (b1 ! j) = body_mass (bs ! j)"
    unfolding b1 by (rule nth_update_ax)
  have a2: "body_ay (b2 ! k) = body_ay (b1 ! k) + (if k = i then pair_fy g bs i j * body_mass (bs ! j) else 0)"
    unfolding b2 using assms l1 by (simp add: nth_list_update m1)
  have a3: "body_ay (b3 ! k) = body_ay (b2 ! k)" for k
    unfolding b3 by (rule nth_update_ax)
  have m3: "body_mass (b3 ! i) = body_mass (bs ! i)"
    unfolding b3 b2 b1 by (simp only: nth_update_ax nth_update_ay)
  have a4: "body_ay (pair_force g i j bs ! k) =
            body_ay (b3 ! k) - (if k = j then pair_fy g bs i j * body_mass (bs ! i) else 0)"
    unfolding pf using assms l3 by (simp add: nth_list_update m3)
  show ?thesis using assms by (simp add: a1 a2 a3 a4)
qed

lemma pair_fx_spec: "pair_fx g bs i j = spec_force_x g bs i j"
  unfolding pair_fx_def spec_force_x_def spec_d2_def SOFTENING_def Let_def power2_eq_square
  by simp

lemma pair_fy_spec: "pair_fy g bs i j = spec_force_y g bs i j"
  unfolding pair_fy_def spec_force_y_def spec_d2_def SOFTENING_def Let_def power2_eq_square
  by simp

lemma fold_pairs_length:
  "length (fold (\<lambda>p. pair_force g (fst p) (snd p)) ps bs) = length bs"
  by (induction ps arbitrary: bs) (simp_all add: pair_force_length)

lemma spec_contrib_cong:
  assumes "body_x (bs' ! fst p) = body_x (bs ! fst p)" "body_y (bs' ! fst p) = body_y (bs ! fst p)"
    "body_mass (bs' ! fst p) = body_mass (bs ! fst p)"
    "body_x (bs' ! snd p) = body_x (bs ! snd p)" "body_y (bs' ! snd p) = body_y (bs ! snd p)"
    "body_mass (bs' ! snd p) = body_mass (bs ! snd p)"
  shows "spec_contrib_x g bs' k p = spec_contrib_x g bs k p"
    and "spec_contrib_y g bs' k p = spec_contrib_y g bs k p"
  using assms
  by (simp_all add: spec_contrib_x_def spec_contrib_y_def spec_force_x_def spec_force_y_def spec_d2_def)

lemma pair_force_ax_spec:
  assumes "fst p \<noteq> snd p" "fst p < length bs" "snd p < length bs"
  shows "body_ax (pair_force g (fst p) (snd p) bs ! k) = body_ax (bs ! k) + spec_contrib_x g bs k p"
  using assms by (simp add: pair_force_ax pair_fx_spec spec_contrib_x_def)

lemma pair_force_ay_spec:
  assumes "fst p \<noteq> snd p" "fst p < length bs" "snd p < length bs"
  shows "body_ay (pair_force g (fst p) (snd p) bs ! k) = body_ay (bs ! k) + spec_contrib_y g bs k p"
  using assms by (simp add: pair_force_ay pair_fy_spec spec_contrib_y_def)

lemma fold_pairs_ax:
  assumes "\<forall>p\<in>set ps. fst p \<noteq> snd p \<and> fst p < length bs \<and> snd p < length bs"
  shows "body_ax (fold (\<lambda>p. pair_force g (fst p) (snd p)) ps bs ! k) =
         foldl (+) (body_ax (bs ! k)) (map (spec_contrib_x g bs k) ps)"
  using assms
proof (induction ps arbitrary: bs)
  case Nil
  then show ?case by simp
next
  case (Cons p ps)
  let ?bs1 = "pair_force g (fst p) (snd p) bs"
  have ok: "\<forall>q\<in>set ps. fst q \<noteq> snd q \<and> fst q < length ?bs1 \<and> snd q < length ?bs1"
    using Cons.prems by (simp add: pair_force_length)
  have same: "map (spec_contrib_x g ?bs1 k) ps = map (spec_contrib_x g bs k) ps"
    by (rule map_cong [OF refl]) (rule spec_contrib_cong; rule pair_force_geom)
  have head: "body_ax (?bs1 ! k) = body_ax (bs ! k) + spec_contrib_x g bs k p"
    using Cons.prems by (intro pair_force_ax_spec) simp_all
  show ?case
    using Cons.IH [OF ok] by (simp add: same head)
qed

lemma fold_pairs_ay:
  assumes "\<forall>p\<in>set ps. fst p \<noteq> snd p \<and> fst p < length bs \<and> snd p < length bs"
  shows "body_ay (fold (\<lambda>p. pair_force g (fst p) (snd p)) ps bs ! k) =
         foldl (+) (body_ay (bs ! k)) (map (spec_contrib_y g bs k) ps)"
  using assms
proof (induction ps arbitrary: bs)
  case Nil
  then show ?case by simp
next
  case (Cons p ps)
  let ?bs1 = "pair_force g (fst p) (snd p) bs"
  have ok: "\<forall>q\<in>set ps. fst q \<noteq> snd q \<and> fst q < length ?bs1 \<and> snd q < length ?bs1"
    using Cons.prems by (simp add: pair_force_length)
  have same: "map (spec_contrib_y g ?bs1 k) ps = map (spec_contrib_y g bs k) ps"
    by (rule map_cong [OF refl]) (rule spec_contrib_cong; rule pair_force_geom)
  have head: "body_ay (?bs1 ! k) = body_ay (bs ! k) + spec_contrib_y g bs k p"
    using Cons.prems by (intro pair_force_ay_spec) simp_all
  show ?case
    using Cons.IH [OF ok] by (simp add: same head)
qed

lemma fold_index_frame:
  assumes "\<And>x. sel (f x) = sel x"
  shows "sel (fold (\<lambda>i ys. ys[i := f (ys ! i)]) js xs ! m) = sel (xs ! m)"
proof (induction js arbitrary: xs)
  case Nil
  show ?case by simp
next
  case (Cons j js)
  have "sel (xs[j := f (xs ! j)] ! m) = sel (xs ! m)"
    by (rule nth_update_frame) (rule assms)
  then show ?case by (simp add: Cons.IH)
qed

lemma compute_forces_pairs:
  "compute_forces bodies n g =
     fold (\<lambda>p. pair_force g (fst p) (snd p)) (pair_order (nat n))
       (fold (\<lambda>i bs. bs[i := (bs ! i)\<lparr>body_ax := 0, body_ay := 0\<rparr>]) [0..<nat n] bodies)"
  unfolding compute_forces_def Let_def pair_order_def
  by (rule nested_fold_pairs)

lemma compute_forces_accel:
  assumes "nat n \<le> length bodies" "k < nat n"
  shows "body_ax (compute_forces bodies n g ! k) = spec_accel_x g bodies (nat n) k"
    and "body_ay (compute_forces bodies n g ! k) = spec_accel_y g bodies (nat n) k"
proof -
  let ?cl = "fold (\<lambda>i bs. bs[i := (bs ! i)\<lparr>body_ax := 0, body_ay := 0\<rparr>]) [0..<nat n] bodies"
  have len: "length ?cl = length bodies" by (rule fold_index_length)
  have nth: "?cl ! m = (if m < nat n then (bodies ! m)\<lparr>body_ax := 0, body_ay := 0\<rparr> else bodies ! m)"
    if "m < length bodies" for m
    using that by (rule fold_index_nth)
  have ok: "\<forall>p\<in>set (pair_order (nat n)). fst p \<noteq> snd p \<and> fst p < length ?cl \<and> snd p < length ?cl"
    using assms(1) pair_order_bounds [of _ "nat n"] by (fastforce simp: len)
  have gx: "body_x (?cl ! m) = body_x (bodies ! m)" for m
    by (rule fold_index_frame) simp
  have gy: "body_y (?cl ! m) = body_y (bodies ! m)" for m
    by (rule fold_index_frame) simp
  have gm: "body_mass (?cl ! m) = body_mass (bodies ! m)" for m
    by (rule fold_index_frame) simp
  have samex: "map (spec_contrib_x g ?cl k) (pair_order (nat n)) = map (spec_contrib_x g bodies k) (pair_order (nat n))"
    by (intro map_cong [OF refl] spec_contrib_cong gx gy gm)
  have samey: "map (spec_contrib_y g ?cl k) (pair_order (nat n)) = map (spec_contrib_y g bodies k) (pair_order (nat n))"
    by (intro map_cong [OF refl] spec_contrib_cong gx gy gm)
  have zero: "body_ax (?cl ! k) = 0" "body_ay (?cl ! k) = 0"
    using assms by (simp_all add: nth)
  show "body_ax (compute_forces bodies n g ! k) = spec_accel_x g bodies (nat n) k"
    unfolding compute_forces_pairs spec_accel_x_def
    by (simp only: fold_pairs_ax [OF ok] samex zero)
  show "body_ay (compute_forces bodies n g ! k) = spec_accel_y g bodies (nat n) k"
    unfolding compute_forces_pairs spec_accel_y_def
    by (simp only: fold_pairs_ay [OF ok] samey zero)
qed

lemma spec_accel_cong:
  assumes "same_geometry n bodies bodies'"
  shows "spec_accel_x g bodies' n k = spec_accel_x g bodies n k"
    and "spec_accel_y g bodies' n k = spec_accel_y g bodies n k"
proof -
  have geo: "body_x (bodies' ! m) = body_x (bodies ! m)" "body_y (bodies' ! m) = body_y (bodies ! m)"
    "body_mass (bodies' ! m) = body_mass (bodies ! m)" if "m < n" for m
    using assms that by (simp_all add: same_geometry_def)
  have bnd: "fst p < n \<and> snd p < n" if "p \<in> set (pair_order n)" for p
    using pair_order_bounds [OF that] by simp
  have mx: "map (spec_contrib_x g bodies' k) (pair_order n) = map (spec_contrib_x g bodies k) (pair_order n)"
    by (intro map_cong [OF refl] spec_contrib_cong geo) (simp_all add: bnd)
  show "spec_accel_x g bodies' n k = spec_accel_x g bodies n k"
    unfolding spec_accel_x_def by (simp only: mx)
  have my: "map (spec_contrib_y g bodies' k) (pair_order n) = map (spec_contrib_y g bodies k) (pair_order n)"
    by (intro map_cong [OF refl] spec_contrib_cong geo) (simp_all add: bnd)
  show "spec_accel_y g bodies' n k = spec_accel_y g bodies n k"
    unfolding spec_accel_y_def by (simp only: my)
qed

text \<open>
  Claim C1. For \<open>n\<close> bodies held in an array of at least \<open>n\<close> entries, the acceleration
  that \<open>compute_forces\<close> leaves in body \<open>k < n\<close> is the sum, over the pairs \<open>(i, j)\<close>,
  \<open>i < j < n\<close>, in ascending \<open>i\<close> and then ascending \<open>j\<close>, of the pair's softened force
  vector scaled by the mass of \<open>j\<close> (for body \<open>i\<close>) and of its negation scaled by the mass
  of \<open>i\<close> (for body \<open>j\<close>), with the softening constant \<open>0.1\<close>. It is the same for any
  other array with the same positions and masses, whatever accelerations it holds on entry.
\<close>

theorem compute_forces_sum:
  assumes "nat n \<le> length bodies" and "nat n \<le> length bodies'" and "k < nat n"
    and "same_geometry (nat n) bodies bodies'"
  shows "body_ax (compute_forces bodies n g ! k) = spec_accel_x g bodies (nat n) k
       \<and> body_ay (compute_forces bodies n g ! k) = spec_accel_y g bodies (nat n) k
       \<and> body_ax (compute_forces bodies' n g ! k) = body_ax (compute_forces bodies n g ! k)
       \<and> body_ay (compute_forces bodies' n g ! k) = body_ay (compute_forces bodies n g ! k)
       \<and> SOFTENING = 0.1 \<and> 0 < SOFTENING"
  using assms
  by (simp add: compute_forces_accel spec_accel_cong SOFTENING_def)

lemma sqrt_9_100: "sqrt (9 / 100) = 3 / 10"
  by (simp add: real_sqrt_divide)

lemma pair_order_2: "pair_order 2 = [(0, 1)]"
  by (simp add: pair_order_def upt_rec numeral_2_eq_2)

lemma pair_order_3: "pair_order 3 = [(0, 1), (0, 2), (1, 2)]"
  by (simp add: pair_order_def upt_rec numeral_3_eq_3)

theorem compute_forces_sum_witness:
  "nat 2 \<le> length [\<lparr>body_x = 0, body_y = 0, body_vx = 0, body_vy = 0, body_ax = 7, body_ay = 7, body_mass = 10\<rparr>,
                     \<lparr>body_x = 0.2, body_y = 0.2, body_vx = 0, body_vy = 0, body_ax = 7, body_ay = 7, body_mass = 27\<rparr>]
   \<and> (0::nat) < nat 2
   \<and> same_geometry (nat 2)
        [\<lparr>body_x = 0, body_y = 0, body_vx = 0, body_vy = 0, body_ax = 7, body_ay = 7, body_mass = 10\<rparr>,
         \<lparr>body_x = 0.2, body_y = 0.2, body_vx = 0, body_vy = 0, body_ax = 7, body_ay = 7, body_mass = 27\<rparr>]
        [\<lparr>body_x = 0, body_y = 0, body_vx = 1, body_vy = 1, body_ax = -3, body_ay = 5, body_mass = 10\<rparr>,
         \<lparr>body_x = 0.2, body_y = 0.2, body_vx = 1, body_vy = 1, body_ax = 4, body_ay = 2, body_mass = 27\<rparr>]
   \<and> body_ax (compute_forces
        [\<lparr>body_x = 0, body_y = 0, body_vx = 0, body_vy = 0, body_ax = 7, body_ay = 7, body_mass = 10\<rparr>,
         \<lparr>body_x = 0.2, body_y = 0.2, body_vx = 0, body_vy = 0, body_ax = 7, body_ay = 7, body_mass = 27\<rparr>] 2 1 ! 0) = 200
   \<and> body_ax (compute_forces
        [\<lparr>body_x = 0, body_y = 0, body_vx = 1, body_vy = 1, body_ax = -3, body_ay = 5, body_mass = 10\<rparr>,
         \<lparr>body_x = 0.2, body_y = 0.2, body_vx = 1, body_vy = 1, body_ax = 4, body_ay = 2, body_mass = 27\<rparr>] 2 1 ! 0) = 200"
  using compute_forces_sum [of 2
        "[\<lparr>body_x = 0, body_y = 0, body_vx = 0, body_vy = 0, body_ax = 7, body_ay = 7, body_mass = 10\<rparr>,
         \<lparr>body_x = 0.2, body_y = 0.2, body_vx = 0, body_vy = 0, body_ax = 7, body_ay = 7, body_mass = 27\<rparr>]"
        "[\<lparr>body_x = 0, body_y = 0, body_vx = 1, body_vy = 1, body_ax = -3, body_ay = 5, body_mass = 10\<rparr>,
         \<lparr>body_x = 0.2, body_y = 0.2, body_vx = 1, body_vy = 1, body_ax = 4, body_ay = 2, body_mass = 27\<rparr>]"
        0 1]
  by (simp add: same_geometry_def less_Suc_eq numeral_2_eq_2 atLeast0_lessThan_Suc spec_accel_x_def spec_accel_y_def
      pair_order_2 [unfolded numeral_2_eq_2] spec_contrib_x_def spec_contrib_y_def spec_force_x_def spec_force_y_def spec_d2_def
      power2_eq_square sqrt_9_100)

section \<open>Properties of the integrator for bodies\<close>

lemma pair_force_frame:
  assumes ax: "\<And>b v. sel (b\<lparr>body_ax := v\<rparr>) = sel b" and ay: "\<And>b v. sel (b\<lparr>body_ay := v\<rparr>) = sel b"
  shows "sel (pair_force g i j bs ! m) = sel (bs ! m)"
proof -
  obtain b1 b2 b3 where
    b1: "b1 = bs[i := (bs ! i)\<lparr>body_ax := body_ax (bs ! i) + pair_fx g bs i j * body_mass (bs ! j)\<rparr>]" and
    b2: "b2 = b1[i := (b1 ! i)\<lparr>body_ay := body_ay (b1 ! i) + pair_fy g bs i j * body_mass (b1 ! j)\<rparr>]" and
    b3: "b3 = b2[j := (b2 ! j)\<lparr>body_ax := body_ax (b2 ! j) - pair_fx g bs i j * body_mass (b2 ! i)\<rparr>]" and
    pf: "pair_force g i j bs = b3[j := (b3 ! j)\<lparr>body_ay := body_ay (b3 ! j) - pair_fy g bs i j * body_mass (b3 ! i)\<rparr>]"
    by (rule pair_force_steps)
  have "sel (b1 ! m) = sel (bs ! m)" unfolding b1 by (rule nth_update_frame) (rule ax)
  moreover have "sel (b2 ! m) = sel (b1 ! m)" unfolding b2 by (rule nth_update_frame) (rule ay)
  moreover have "sel (b3 ! m) = sel (b2 ! m)" unfolding b3 by (rule nth_update_frame) (rule ax)
  moreover have "sel (pair_force g i j bs ! m) = sel (b3 ! m)" unfolding pf by (rule nth_update_frame) (rule ay)
  ultimately show ?thesis by simp
qed

lemma compute_forces_frame:
  assumes ax: "\<And>b v. sel (b\<lparr>body_ax := v\<rparr>) = sel b" and ay: "\<And>b v. sel (b\<lparr>body_ay := v\<rparr>) = sel b"
  shows "sel (compute_forces bodies n g ! m) = sel (bodies ! m)"
proof -
  have pairs: "sel (fold (\<lambda>p. pair_force g (fst p) (snd p)) ps bs ! m) = sel (bs ! m)" for ps bs
    by (induction ps arbitrary: bs) (simp_all add: pair_force_frame [of sel, OF ax ay])
  have "sel (fold (\<lambda>i bs. bs[i := (bs ! i)\<lparr>body_ax := 0, body_ay := 0\<rparr>]) [0..<nat n] bodies ! m) = sel (bodies ! m)"
    by (rule fold_index_frame) (simp add: ax ay)
  then show ?thesis
    by (simp add: compute_forces_pairs pairs)
qed

lemma compute_forces_length: "length (compute_forces bodies n g) = length bodies"
  by (simp add: compute_forces_pairs fold_pairs_length fold_update_length)


lemma update_bodies_nth:
  assumes "nat n \<le> length bodies" "k < nat n"
  shows "update_bodies bodies n dt g ! k = integrate_body dt (compute_forces bodies n g ! k)"
  using assms by (simp add: update_bodies_def Let_def fold_index_nth compute_forces_length)

lemma integrate_body_fields:
  "body_vx (integrate_body dt b) = body_vx b + body_ax b * dt"
  "body_vy (integrate_body dt b) = body_vy b + body_ay b * dt"
  "body_x (integrate_body dt b) = body_x b + (body_vx b + body_ax b * dt) * dt"
  "body_y (integrate_body dt b) = body_y b + (body_vy b + body_ay b * dt) * dt"
  "body_ax (integrate_body dt b) = body_ax b"
  "body_ay (integrate_body dt b) = body_ay b"
  "body_mass (integrate_body dt b) = body_mass b"
  by (simp_all add: integrate_body_def Let_def)

text \<open>
  Claim C2. \<open>update_bodies\<close> leaves in body \<open>k < n\<close> the velocity \<open>v + a \<cdot> dt\<close>, where
  \<open>a\<close> is the acceleration \<open>compute_forces\<close> computes for that body from the positions on
  entry, and the position \<open>x + v' \<cdot> dt\<close> with the velocity \<open>v'\<close> just written, that is
  \<open>x + (v + a \<cdot> dt) \<cdot> dt\<close>; it differs from the plain Euler position \<open>x + v \<cdot> dt\<close> by
  \<open>a \<cdot> dt \<cdot> dt\<close>.
\<close>

theorem update_bodies_symplectic:
  assumes "nat n \<le> length bodies" and "k < nat n"
  shows "body_vx (update_bodies bodies n dt g ! k)
           = body_vx (bodies ! k) + body_ax (compute_forces bodies n g ! k) * dt
       \<and> body_vy (update_bodies bodies n dt g ! k)
           = body_vy (bodies ! k) + body_ay (compute_forces bodies n g ! k) * dt
       \<and> body_x (update_bodies bodies n dt g ! k)
           = body_x (bodies ! k) + body_vx (update_bodies bodies n dt g ! k) * dt
       \<and> body_y (update_bodies bodies n dt g ! k)
           = body_y (bodies ! k) + body_vy (update_bodies bodies n dt g ! k) * dt
       \<and> body_x (update_bodies bodies n dt g ! k)
           = body_x (bodies ! k) + (body_vx (bodies ! k) + body_ax (compute_forces bodies n g ! k) * dt) * dt
       \<and> body_y (update_bodies bodies n dt g ! k)
           = body_y (bodies ! k) + (body_vy (bodies ! k) + body_ay (compute_forces bodies n g ! k) * dt) * dt
       \<and> body_x (update_bodies bodies n dt g ! k) - (body_x (bodies ! k) + body_vx (bodies ! k) * dt)
           = body_ax (compute_forces bodies n g ! k) * dt * dt
       \<and> body_y (update_bodies bodies n dt g ! k) - (body_y (bodies ! k) + body_vy (bodies ! k) * dt)
           = body_ay (compute_forces bodies n g ! k) * dt * dt"
proof -
  have fr: "body_x (compute_forces bodies n g ! k) = body_x (bodies ! k)"
     "body_y (compute_forces bodies n g ! k) = body_y (bodies ! k)"
     "body_vx (compute_forces bodies n g ! k) = body_vx (bodies ! k)"
     "body_vy (compute_forces bodies n g ! k) = body_vy (bodies ! k)"
    by (rule compute_forces_frame; simp)+
  show ?thesis
    by (simp add: update_bodies_nth [OF assms] integrate_body_fields fr algebra_simps)
qed

theorem update_bodies_symplectic_witness:
  "nat 2 \<le> length [\<lparr>body_x = 0, body_y = 0, body_vx = 3, body_vy = 0, body_ax = 7, body_ay = 7, body_mass = 10\<rparr>,
                     \<lparr>body_x = 0.2, body_y = 0.2, body_vx = 0, body_vy = 0, body_ax = 7, body_ay = 7, body_mass = 27\<rparr>]
   \<and> (0::nat) < nat 2
   \<and> body_vx (update_bodies
        [\<lparr>body_x = 0, body_y = 0, body_vx = 3, body_vy = 0, body_ax = 7, body_ay = 7, body_mass = 10\<rparr>,
         \<lparr>body_x = 0.2, body_y = 0.2, body_vx = 0, body_vy = 0, body_ax = 7, body_ay = 7, body_mass = 27\<rparr>] 2 (1/2) 1 ! 0) = 103
   \<and> body_x (update_bodies
        [\<lparr>body_x = 0, body_y = 0, body_vx = 3, body_vy = 0, body_ax = 7, body_ay = 7, body_mass = 10\<rparr>,
         \<lparr>body_x = 0.2, body_y = 0.2, body_vx = 0, body_vy = 0, body_ax = 7, body_ay = 7, body_mass = 27\<rparr>] 2 (1/2) 1 ! 0) = 103 / 2"
  using update_bodies_symplectic [of 2
        "[\<lparr>body_x = 0, body_y = 0, body_vx = 3, body_vy = 0, body_ax = 7, body_ay = 7, body_mass = 10\<rparr>,
         \<lparr>body_x = 0.2, body_y = 0.2, body_vx = 0, body_vy = 0, body_ax = 7, body_ay = 7, body_mass = 27\<rparr>]"
        0 "1/2" 1]
    compute_forces_accel(1) [of 2
        "[\<lparr>body_x = 0, body_y = 0, body_vx = 3, body_vy = 0, body_ax = 7, body_ay = 7, body_mass = 10\<rparr>,
         \<lparr>body_x = 0.2, body_y = 0.2, body_vx = 0, body_vy = 0, body_ax = 7, body_ay = 7, body_mass = 27\<rparr>]"
        0 1]
  by (simp add: numeral_2_eq_2 spec_accel_x_def
      pair_order_2 [unfolded numeral_2_eq_2] spec_contrib_x_def spec_force_x_def spec_d2_def
      power2_eq_square sqrt_9_100)

section \<open>Newton's third law\<close>

lemma two_body_accel:
  assumes "2 \<le> length bodies"
  shows "body_ax (compute_forces bodies 2 g ! 0) = spec_force_x g bodies 0 1 * body_mass (bodies ! 1)"
    and "body_ay (compute_forces bodies 2 g ! 0) = spec_force_y g bodies 0 1 * body_mass (bodies ! 1)"
    and "body_ax (compute_forces bodies 2 g ! 1) = - (spec_force_x g bodies 0 1 * body_mass (bodies ! 0))"
    and "body_ay (compute_forces bodies 2 g ! 1) = - (spec_force_y g bodies 0 1 * body_mass (bodies ! 0))"
  using assms compute_forces_accel [of 2 bodies 0 g] compute_forces_accel [of 2 bodies 1 g]
  by (simp_all add: spec_accel_x_def spec_accel_y_def pair_order_2 spec_contrib_x_def spec_contrib_y_def)

lemma mass_times_mag:
  assumes "0 \<le> (m::real)"
  shows "m * sqrt (a * a + b * b) = sqrt ((m * a) * (m * a) + (m * b) * (m * b))"
proof -
  have "(m * a) * (m * a) + (m * b) * (m * b) = m\<^sup>2 * (a * a + b * b)"
    by (simp add: power2_eq_square algebra_simps)
  then show ?thesis
    using assms by (simp add: real_sqrt_mult)
qed

text \<open>
  Claim C4, as amended. In a call with exactly two bodies of non-negative mass the
  mass-weighted accelerations are opposite vectors, so \<open>mass\<^sub>0 \<cdot> |accel\<^sub>0| = mass\<^sub>1 \<cdot> |accel\<^sub>1|\<close>
  and the two accelerations are antiparallel. (With three or more bodies each
  acceleration is a net sum over the other bodies and the pairwise relation fails, as the
  counterexample below shows.)
\<close>

theorem newton_third_two_bodies:
  assumes "2 \<le> length bodies" and "0 \<le> body_mass (bodies ! 0)" and "0 \<le> body_mass (bodies ! 1)"
  shows "body_mass (bodies ! 0) * body_ax (compute_forces bodies 2 g ! 0)
           = - (body_mass (bodies ! 1) * body_ax (compute_forces bodies 2 g ! 1))
       \<and> body_mass (bodies ! 0) * body_ay (compute_forces bodies 2 g ! 0)
           = - (body_mass (bodies ! 1) * body_ay (compute_forces bodies 2 g ! 1))
       \<and> body_mass (bodies ! 0) * accel_mag (compute_forces bodies 2 g ! 0)
           = body_mass (bodies ! 1) * accel_mag (compute_forces bodies 2 g ! 1)
       \<and> antiparallel (compute_forces bodies 2 g ! 0) (compute_forces bodies 2 g ! 1)"
proof -
  let ?fx = "spec_force_x g bodies 0 1" and ?fy = "spec_force_y g bodies 0 1"
  let ?m0 = "body_mass (bodies ! 0)" and ?m1 = "body_mass (bodies ! 1)"
  note acc = two_body_accel [OF assms(1), of g, unfolded One_nat_def]
  have vx: "?m0 * body_ax (compute_forces bodies 2 g ! 0) = - (?m1 * body_ax (compute_forces bodies 2 g ! 1))"
    by (simp add: acc)
  have vy: "?m0 * body_ay (compute_forces bodies 2 g ! 0) = - (?m1 * body_ay (compute_forces bodies 2 g ! 1))"
    by (simp add: acc)
  have mag: "?m0 * accel_mag (compute_forces bodies 2 g ! 0) = ?m1 * accel_mag (compute_forces bodies 2 g ! 1)"
    unfolding accel_mag_def mass_times_mag [OF assms(2)] mass_times_mag [OF assms(3)] vx vy
    by simp
  have "?m0 * ?m1 * (?fx * ?fx + ?fy * ?fy) \<ge> 0"
    using assms(2,3) by (intro mult_nonneg_nonneg add_nonneg_nonneg zero_le_square) simp_all
  then have anti: "antiparallel (compute_forces bodies 2 g ! 0) (compute_forces bodies 2 g ! 1)"
    by (simp add: antiparallel_def acc algebra_simps)
  show ?thesis using vx vy mag anti by blast
qed

theorem newton_third_two_bodies_witness:
  "2 \<le> length [\<lparr>body_x = 0, body_y = 0, body_vx = 3, body_vy = 0, body_ax = 7, body_ay = 7, body_mass = 10\<rparr>,
                 \<lparr>body_x = 0.2, body_y = 0.2, body_vx = 0, body_vy = 0, body_ax = 7, body_ay = 7, body_mass = 27\<rparr>]
   \<and> (0::real) \<le> 10 \<and> (0::real) \<le> 27
   \<and> 10 * accel_mag (compute_forces
        [\<lparr>body_x = 0, body_y = 0, body_vx = 3, body_vy = 0, body_ax = 7, body_ay = 7, body_mass = 10\<rparr>,
         \<lparr>body_x = 0.2, body_y = 0.2, body_vx = 0, body_vy = 0, body_ax = 7, body_ay = 7, body_mass = 27\<rparr>] 2 1 ! 0)
     = 27 * accel_mag (compute_forces
        [\<lparr>body_x = 0, body_y = 0, body_vx = 3, body_vy = 0, body_ax = 7, body_ay = 7, body_mass = 10\<rparr>,
         \<lparr>body_x = 0.2, body_y = 0.2, body_vx = 0, body_vy = 0, body_ax = 7, body_ay = 7, body_mass = 27\<rparr>] 2 1 ! 1)
   \<and> antiparallel (compute_forces
        [\<lparr>body_x = 0, body_y = 0, body_vx = 3, body_vy = 0, body_ax = 7, body_ay = 7, body_mass = 10\<rparr>,
         \<lparr>body_x = 0.2, body_y = 0.2, body_vx = 0, body_vy = 0, body_ax = 7, body_ay = 7, body_mass = 27\<rparr>] 2 1 ! 0)
       (compute_forces
        [\<lparr>body_x = 0, body_y = 0, body_vx = 3, body_vy = 0, body_ax = 7, body_ay = 7, body_mass = 10\<rparr>,
         \<lparr>body_x = 0.2, body_y = 0.2, body_vx = 0, body_vy = 0, body_ax = 7, body_ay = 7, body_mass = 27\<rparr>] 2 1 ! 1)
   \<and> body_ax (compute_forces
        [\<lparr>body_x = 0, body_y = 0, body_vx = 3, body_vy = 0, body_ax = 7, body_ay = 7, body_mass = 10\<rparr>,
         \<lparr>body_x = 0.2, body_y = 0.2, body_vx = 0, body_vy = 0, body_ax = 7, body_ay = 7, body_mass = 27\<rparr>] 2 1 ! 1) = - (2000 / 27)"
  using newton_third_two_bodies [of
        "[\<lparr>body_x = 0, body_y = 0, body_vx = 3, body_vy = 0, body_ax = 7, body_ay = 7, body_mass = 10\<rparr>,
         \<lparr>body_x = 0.2, body_y = 0.2, body_vx = 0, body_vy = 0, body_ax = 7, body_ay = 7, body_mass = 27\<rparr>]" 1]
    compute_forces_accel(1) [of 2
        "[\<lparr>body_x = 0, body_y = 0, body_vx = 3, body_vy = 0, body_ax = 7, body_ay = 7, body_mass = 10\<rparr>,
         \<lparr>body_x = 0.2, body_y = 0.2, body_vx = 0, body_vy = 0, body_ax = 7, body_ay = 7, body_mass = 27\<rparr>]"
        0 1]
  by (simp add: numeral_2_eq_2 spec_accel_x_def
      pair_order_2 [unfolded numeral_2_eq_2] spec_contrib_x_def spec_force_x_def spec_d2_def
      power2_eq_square sqrt_9_100)

lemma three_in_line_accel:
  fixes bs :: "body list"
  assumes "bs =
     [\<lparr>body_x = 0, body_y = 0, body_vx = 0, body_vy = 0, body_ax = 0, body_ay = 0, body_mass = 1\<rparr>,
      \<lparr>body_x = 1, body_y = 0, body_vx = 0, body_vy = 0, body_ax = 0, body_ay = 0, body_mass = 1\<rparr>,
      \<lparr>body_x = 2, body_y = 0, body_vx = 0, body_vy = 0, body_ax = 0, body_ay = 0, body_mass = 1\<rparr>]"
  shows "body_ax (compute_forces bs 3 1 ! 1) = 0"
    and "body_ay (compute_forces bs 3 1 ! 1) = 0"
    and "body_ay (compute_forces bs 3 1 ! 0) = 0"
    and "body_ax (compute_forces bs 3 1 ! 0) > 0"
  using compute_forces_accel [of 3 bs 0 1] compute_forces_accel [of 3 bs 1 1]
  by (simp_all add: assms spec_accel_x_def spec_accel_y_def pair_order_3 spec_contrib_x_def spec_contrib_y_def
      spec_force_x_def spec_force_y_def spec_d2_def add_pos_pos)

text \<open>
  Claim C4 as stated fails for three bodies: with unit masses at \<open>x = 0, 1, 2\<close> on a line
  the middle body is pulled equally from both sides and its acceleration is zero, while
  the first body's is not.
\<close>

theorem newton_third_pairwise_counterexample:
  "body_mass ([\<lparr>body_x = 0, body_y = 0, body_vx = 0, body_vy = 0, body_ax = 0, body_ay = 0, body_mass = 1\<rparr>,
      \<lparr>body_x = 1, body_y = 0, body_vx = 0, body_vy = 0, body_ax = 0, body_ay = 0, body_mass = 1\<rparr>,
      \<lparr>body_x = 2, body_y = 0, body_vx = 0, body_vy = 0, body_ax = 0, body_ay = 0, body_mass = 1\<rparr>] ! 0)
     * accel_mag (compute_forces
     [\<lparr>body_x = 0, body_y = 0, body_vx = 0, body_vy = 0, body_ax = 0, body_ay = 0, body_mass = 1\<rparr>,
      \<lparr>body_x = 1, body_y = 0, body_vx = 0, body_vy = 0, body_ax = 0, body_ay = 0, body_mass = 1\<rparr>,
      \<lparr>body_x = 2, body_y = 0, body_vx = 0, body_vy = 0, body_ax = 0, body_ay = 0, body_mass = 1\<rparr>] 3 1 ! 0)
   \<noteq> body_mass ([\<lparr>body_x = 0, body_y = 0, body_vx = 0, body_vy = 0, body_ax = 0, body_ay = 0, body_mass = 1\<rparr>,
      \<lparr>body_x = 1, body_y = 0, body_vx = 0, body_vy = 0, body_ax = 0, body_ay = 0, body_mass = 1\<rparr>,
      \<lparr>body_x = 2, body_y = 0, body_vx = 0, body_vy = 0, body_ax = 0, body_ay = 0, body_mass = 1\<rparr>] ! 1)
     * accel_mag (compute_forces
     [\<lparr>body_x = 0, body_y = 0, body_vx = 0, body_vy = 0, body_ax = 0, body_ay = 0, body_mass = 1\<rparr>,
      \<lparr>body_x = 1, body_y = 0, body_vx = 0, body_vy = 0, body_ax = 0, body_ay = 0, body_mass = 1\<rparr>,
      \<lparr>body_x = 2, body_y = 0, body_vx = 0, body_vy = 0, body_ax = 0, body_ay = 0, body_mass = 1\<rparr>] 3 1 ! 1)"
  using three_in_line_accel [OF refl]
  by (simp add: accel_mag_def)

section \<open>Rounding to \<open>double\<close>\<close>




lemma round_even_error: "\<bar>real_of_int (round_even x) - x\<bar> \<le> 1 / 2"
  unfolding round_even_def by (simp; linarith)


lemma double_ulp_pos: "0 < double_ulp r"
  by (simp add: double_ulp_def)




lemma round_double_error:
  assumes "round_double r = Some v"
  shows "\<bar>v - r\<bar> \<le> double_ulp r / 2"
proof -
  have v: "v = real_of_int (round_even (r / double_ulp r)) * double_ulp r"
    using assms by (simp add: round_double_def Let_def split: if_splits)
  have "\<bar>real_of_int (round_even (r / double_ulp r)) - r / double_ulp r\<bar> * double_ulp r \<le> 1 / 2 * double_ulp r"
    using round_even_error [of "r / double_ulp r"] double_ulp_pos [of r]
    by (simp only: mult_le_cancel_right) simp
  moreover have "\<bar>real_of_int (round_even (r / double_ulp r)) - r / double_ulp r\<bar> * double_ulp r = \<bar>v - r\<bar>"
  proof -
    have "(real_of_int (round_even (r / double_ulp r)) - r / double_ulp r) * double_ulp r = v - r"
      using double_ulp_pos [of r] unfolding v by (simp add: field_simps)
    then have "\<bar>v - r\<bar> = \<bar>real_of_int (round_even (r / double_ulp r)) - r / double_ulp r\<bar> * \<bar>double_ulp r\<bar>"
      by (simp only: abs_mult [symmetric])
    then show ?thesis using double_ulp_pos [of r] by simp
  qed
  ultimately show ?thesis by simp
qed

section \<open>The world-to-pixel projection\<close>

lemma trunc_bounds:
  "\<bar>real_of_int (if v < 0 then \<lceil>v\<rceil> else \<lfloor>v\<rfloor>)\<bar> \<le> \<bar>v\<bar>"
  "\<bar>v - real_of_int (if v < 0 then \<lceil>v\<rceil> else \<lfloor>v\<rfloor>)\<bar> < 1"
  by (cases "v < 0"; simp; linarith)+

lemma c_int_cast_trunc:
  assumes "- (2 ^ 31) - 1 < v" and "v < 2 ^ 31"
  shows "c_int_cast v = Some (if v < 0 then \<lceil>v\<rceil> else \<lfloor>v\<rfloor>)"
  using assms by (simp add: c_int_cast_def)

lemma cast_operand_steps:
  assumes "fp_mul w scale = Some m" and "fp_add m 400 = Some v"
  shows "cast_operand w scale 800 = Some v"
  using assms by (simp add: cast_operand_def)



lemma two_roundings:
  assumes "round_double a = Some m" and "round_double (m + c) = Some v"
  shows "\<bar>v - (a + c)\<bar> \<le> (double_ulp a + double_ulp (m + c)) / 2"
proof -
  have "v - (a + c) = (v - (m + c)) + (m - a)" by simp
  then have "\<bar>v - (a + c)\<bar> \<le> \<bar>v - (m + c)\<bar> + \<bar>m - a\<bar>"
    by (simp only: abs_triangle_ineq)
  also have "\<dots> \<le> double_ulp (m + c) / 2 + double_ulp a / 2"
    by (rule add_mono [OF round_double_error [OF assms(2)] round_double_error [OF assms(1)]])
  finally show ?thesis by (simp add: add_divide_distrib)
qed

text \<open>
  Claim C3, as amended. For a coordinate and a scale that are \<open>double\<close>s, let \<open>m\<close> be the
  \<open>double\<close> product of the two and \<open>v\<close> the \<open>double\<close> sum of \<open>m\<close> and 400: the value the code
  converts. When \<open>v\<close> lies in the range that \<open>(int)\<close> converts, every projection in
  \<open>render\<close> and in the plotting tool is defined and is the truncation of \<open>v\<close> towards zero
  (the floor of a non-negative value, the ceiling of a negative one): the pixel
  coordinate is never larger in magnitude than \<open>v\<close> and less than one away from it. The
  value \<open>v\<close> itself is within half a unit in the last place, for each of the two
  operations, of the exact \<open>world \<cdot> scale + 400\<close>.
\<close>

theorem projection_truncates:
  assumes "is_double wx" and "is_double wy" and "is_double scale"
    and "fp_mul wx scale = Some mx" and "fp_add mx 400 = Some vx"
    and "fp_mul wy scale = Some my" and "fp_add my 400 = Some vy"
    and "- (2 ^ 31) - 1 < vx" and "vx < 2 ^ 31" and "- (2 ^ 31) - 1 < vy" and "vy < 2 ^ 31"
  shows "render_px wx scale = Some (if vx < 0 then \<lceil>vx\<rceil> else \<lfloor>vx\<rfloor>)
       \<and> render_py wy scale = Some (if vy < 0 then \<lceil>vy\<rceil> else \<lfloor>vy\<rfloor>)
       \<and> plot_px wx scale = render_px wx scale \<and> plot_py wy scale = render_py wy scale
       \<and> \<bar>real_of_int (the (render_px wx scale))\<bar> \<le> \<bar>vx\<bar>
       \<and> \<bar>vx - real_of_int (the (render_px wx scale))\<bar> < 1
       \<and> \<bar>real_of_int (the (render_py wy scale))\<bar> \<le> \<bar>vy\<bar>
       \<and> \<bar>vy - real_of_int (the (render_py wy scale))\<bar> < 1
       \<and> \<bar>vx - (wx * scale + 400)\<bar> \<le> (double_ulp (wx * scale) + double_ulp (mx + 400)) / 2
       \<and> \<bar>vy - (wy * scale + 400)\<bar> \<le> (double_ulp (wy * scale) + double_ulp (my + 400)) / 2"
proof -
  have ox: "cast_operand wx scale 800 = Some vx" using assms(4,5) by (rule cast_operand_steps)
  have oy: "cast_operand wy scale 800 = Some vy" using assms(6,7) by (rule cast_operand_steps)
  have cx: "c_int_cast vx = Some (if vx < 0 then \<lceil>vx\<rceil> else \<lfloor>vx\<rfloor>)"
    using assms(8,9) by (rule c_int_cast_trunc)
  have cy: "c_int_cast vy = Some (if vy < 0 then \<lceil>vy\<rceil> else \<lfloor>vy\<rfloor>)"
    using assms(10,11) by (rule c_int_cast_trunc)
  have px: "render_px wx scale = Some (if vx < 0 then \<lceil>vx\<rceil> else \<lfloor>vx\<rfloor>)"
    by (simp add: render_px_def WIDTH_def ox cx)
  have py: "render_py wy scale = Some (if vy < 0 then \<lceil>vy\<rceil> else \<lfloor>vy\<rfloor>)"
    by (simp add: render_py_def HEIGHT_def oy cy)
  have qx: "plot_px wx scale = render_px wx scale"
    by (simp add: plot_px_def render_px_def WIDTH_def)
  have qy: "plot_py wy scale = render_py wy scale"
    by (simp add: plot_py_def render_py_def HEIGHT_def)
  have ex: "\<bar>vx - (wx * scale + 400)\<bar> \<le> (double_ulp (wx * scale) + double_ulp (mx + 400)) / 2"
    using two_roundings [of "wx * scale" mx 400 vx] assms(4,5) by (simp add: fp_mul_def fp_add_def)
  have ey: "\<bar>vy - (wy * scale + 400)\<bar> \<le> (double_ulp (wy * scale) + double_ulp (my + 400)) / 2"
    using two_roundings [of "wy * scale" my 400 vy] assms(6,7) by (simp add: fp_mul_def fp_add_def)
  show ?thesis
    unfolding qx qy px py option.sel
    using trunc_bounds [of vx] trunc_bounds [of vy] ex ey by simp
qed

text \<open>
  Two coordinates at scale 50. The exact image of the \<open>double\<close> nearest to 0.58 is a
  little below 429; the product is rounded to \<open>29 - 2 ^ (- 48)\<close> and the sum to 429, so
  the pixel is 429, not 428. The exact image of the coordinate \<open>- 2 ^ (- 70)\<close> is a
  little below 400; the sum is rounded to 400, so the pixel is 400, not 399.
\<close>

lemmas double_eval = round_double_def double_ulp_def double_exponent_def ceil_log2_def round_even_def
  floor_log2.simps Let_def power_int_def is_double_def power_one_over fp_mul_def fp_add_def

lemma double_0_58: "is_double (5224175567749775 / 2 ^ 53)"
  by (simp add: double_eval)

lemma double_tiny: "is_double (- (1 / 2 ^ 70))"
  by (simp add: double_eval)

lemma double_50: "is_double 50"
  by (simp add: double_eval)

lemma mul_0_58: "fp_mul (5224175567749775 / 2 ^ 53) 50 = Some (8162774324609023 / 2 ^ 48)"
  by (simp add: double_eval)

lemma add_0_58: "fp_add (8162774324609023 / 2 ^ 48) 400 = Some 429"
  by (simp add: double_eval)

lemma mul_tiny: "fp_mul (- (1 / 2 ^ 70)) 50 = Some (- (25 / 2 ^ 69))"
  by (simp add: double_eval)

lemma add_tiny: "fp_add (- (25 / 2 ^ 69)) 400 = Some 400"
  by (simp add: double_eval)

theorem projection_truncates_witness:
  "is_double (5224175567749775 / 2 ^ 53) \<and> is_double (- (1 / 2 ^ 70)) \<and> is_double 50
   \<and> fp_mul (5224175567749775 / 2 ^ 53) 50 = Some (8162774324609023 / 2 ^ 48)
   \<and> fp_add (8162774324609023 / 2 ^ 48) 400 = Some 429
   \<and> fp_mul (- (1 / 2 ^ 70)) 50 = Some (- (25 / 2 ^ 69))
   \<and> fp_add (- (25 / 2 ^ 69)) 400 = Some 400
   \<and> - (2 ^ 31) - 1 < (429::real) \<and> (429::real) < 2 ^ 31
   \<and> - (2 ^ 31) - 1 < (400::real) \<and> (400::real) < 2 ^ 31
   \<and> render_px (5224175567749775 / 2 ^ 53) 50 = Some 429
   \<and> render_py (- (1 / 2 ^ 70)) 50 = Some 400
   \<and> plot_px (5224175567749775 / 2 ^ 53) 50 = Some 429
   \<and> plot_py (- (1 / 2 ^ 70)) 50 = Some 400
   \<and> \<lfloor>5224175567749775 / 2 ^ 53 * 50 + 400 :: real\<rfloor> = 428
   \<and> \<lfloor>- (1 / 2 ^ 70) * 50 + 400 :: real\<rfloor> = 399"
  using projection_truncates [OF double_0_58 double_tiny double_50 mul_0_58 add_0_58 mul_tiny add_tiny]
    double_0_58 double_tiny double_50 mul_0_58 add_0_58 mul_tiny add_tiny
  by simp

text \<open>
  Claim C3 as stated fails: the \<open>double\<close> nearest to 0.012 lies, at scale 50, at the
  \<open>double\<close> nearest to 400.6, which \<open>render\<close> and the plotting tool both project to pixel
  400 and rounding to pixel 401.
\<close>

lemma double_0_012: "is_double (3458764513820541 / 2 ^ 58)"
  by (simp add: double_eval)

lemma mul_0_012: "fp_mul (3458764513820541 / 2 ^ 58) 50 = Some (5404319552844595 / 2 ^ 53)"
  by (simp add: double_eval)

lemma add_0_012: "fp_add (5404319552844595 / 2 ^ 53) 400 = Some (3523714864696525 / 2 ^ 43)"
  by (simp add: double_eval)

theorem projection_round_counterexample:
  "is_double (3458764513820541 / 2 ^ 58) \<and> is_double 50
   \<and> render_px (3458764513820541 / 2 ^ 58) 50 = Some 400
   \<and> render_py (3458764513820541 / 2 ^ 58) 50 = Some 400
   \<and> plot_px (3458764513820541 / 2 ^ 58) 50 = Some 400
   \<and> plot_py (3458764513820541 / 2 ^ 58) 50 = Some 400
   \<and> spec_pixel (3458764513820541 / 2 ^ 58) 50 WIDTH = 401
   \<and> spec_pixel (3458764513820541 / 2 ^ 58) 50 HEIGHT = 401"
proof -
  have v: "cast_operand (3458764513820541 / 2 ^ 58) 50 800 = Some (3523714864696525 / 2 ^ 43)"
    using mul_0_012 add_0_012 by (rule cast_operand_steps)
  have c: "c_int_cast (3523714864696525 / 2 ^ 43) = Some 400"
    by (simp add: c_int_cast_def)
  have s: "spec_pixel (3458764513820541 / 2 ^ 58) 50 800 = 401"
    by (simp add: spec_pixel_def round_def)
  show ?thesis
    using double_0_012 double_50 v c s
    by (simp add: render_px_def render_py_def plot_px_def plot_py_def WIDTH_def HEIGHT_def)
qed

section \<open>Properties of the rocket update\<close>

lemma rocket_pull_frame:
  assumes "\<And>r v w. sel (r\<lparr>rocket_ax := v, rocket_ay := w\<rparr>) = sel r"
  shows "sel (rocket_pull g b r) = sel r"
  by (simp add: rocket_pull_def Let_def assms)

lemma fold_rocket_pull_frame:
  assumes "\<And>r v w. sel (r\<lparr>rocket_ax := v, rocket_ay := w\<rparr>) = sel r"
  shows "sel (fold (\<lambda>j r'. rocket_pull g (bodies ! j) r') js r) = sel r"
  by (induction js arbitrary: r) (simp_all add: rocket_pull_frame [of sel, OF assms])

lemma rocket_forces_one_frame:
  assumes "\<And>r v w. sel (r\<lparr>rocket_ax := v, rocket_ay := w\<rparr>) = sel r"
  shows "sel (rocket_forces_one g bodies n_bodies r) = sel r"
  by (simp add: rocket_forces_one_def fold_rocket_pull_frame [of sel, OF assms] assms)

lemma rocket_forces_one_inactive: "active r = 0 \<Longrightarrow> rocket_forces_one g bodies n_bodies r = r"
  by (simp add: rocket_forces_one_def)

lemma integrate_rocket_inactive: "active r = 0 \<Longrightarrow> integrate_rocket dt r = r"
  by (simp add: integrate_rocket_def)

lemma compute_rocket_forces_length:
  "length (compute_rocket_forces rockets n_rockets bodies n_bodies g) = length rockets"
  by (simp add: compute_rocket_forces_def fold_update_length)

lemma compute_rocket_forces_nth:
  assumes "i < length rockets"
  shows "compute_rocket_forces rockets n_rockets bodies n_bodies g ! i =
     (if i < nat n_rockets then rocket_forces_one g bodies n_bodies (rockets ! i) else rockets ! i)"
  unfolding compute_rocket_forces_def using assms by (rule fold_index_nth)

lemma update_rockets_length:
  "length (update_rockets rockets n_rockets bodies n_bodies dt g) = length rockets"
  by (simp add: update_rockets_def Let_def fold_update_length compute_rocket_forces_length)

lemma update_rockets_nth:
  assumes "i < length rockets"
  shows "update_rockets rockets n_rockets bodies n_bodies dt g ! i =
     (if i < nat n_rockets then integrate_rocket dt (rocket_forces_one g bodies n_bodies (rockets ! i))
      else rockets ! i)"
proof -
  have "i < length (compute_rocket_forces rockets n_rockets bodies n_bodies g)"
    using assms by (simp add: compute_rocket_forces_length)
  then have "update_rockets rockets n_rockets bodies n_bodies dt g ! i =
      (if i < nat n_rockets then integrate_rocket dt (compute_rocket_forces rockets n_rockets bodies n_bodies g ! i)
       else compute_rocket_forces rockets n_rockets bodies n_bodies g ! i)"
    unfolding update_rockets_def Let_def by (rule fold_index_nth)
  then show ?thesis
    using assms by (simp add: compute_rocket_forces_nth)
qed

text \<open>
  Claim C8. A rocket whose \<open>active\<close> flag is zero comes out of \<open>compute_rocket_forces\<close>
  and out of \<open>update_rockets\<close> as the same record: acceleration, velocity, position, both
  trail buffers, \<open>trail_length\<close> and the rest are unchanged.
\<close>

theorem inactive_rocket_untouched:
  assumes "nat n_rockets \<le> length rockets" and "i < length rockets" and "active (rockets ! i) = 0"
  shows "compute_rocket_forces rockets n_rockets bodies n_bodies g ! i = rockets ! i
       \<and> update_rockets rockets n_rockets bodies n_bodies dt g ! i = rockets ! i"
  using assms
  by (simp add: compute_rocket_forces_nth update_rockets_nth rocket_forces_one_inactive integrate_rocket_inactive)

lemma advance_rocket_fields:
  "rocket_vx (advance_rocket dt r) = rocket_vx r + rocket_ax r * dt"
  "rocket_vy (advance_rocket dt r) = rocket_vy r + rocket_ay r * dt"
  "rocket_x (advance_rocket dt r) = rocket_x r + (rocket_vx r + rocket_ax r * dt) * dt"
  "rocket_y (advance_rocket dt r) = rocket_y r + (rocket_vy r + rocket_ay r * dt) * dt"
  "rocket_ax (advance_rocket dt r) = rocket_ax r"
  "rocket_ay (advance_rocket dt r) = rocket_ay r"
  "active (advance_rocket dt r) = active r"
  "trail_x (advance_rocket dt r) = trail_x r"
  "trail_y (advance_rocket dt r) = trail_y r"
  "trail_length (advance_rocket dt r) = trail_length r"
  "trail_capacity (advance_rocket dt r) = trail_capacity r"
  by (simp_all add: advance_rocket_def Let_def)

lemma store_trail_fields:
  "rocket_x (store_trail r) = rocket_x r"
  "rocket_y (store_trail r) = rocket_y r"
  "rocket_vx (store_trail r) = rocket_vx r"
  "rocket_vy (store_trail r) = rocket_vy r"
  "rocket_ax (store_trail r) = rocket_ax r"
  "rocket_ay (store_trail r) = rocket_ay r"
  "active (store_trail r) = active r"
  "trail_capacity (store_trail r) = trail_capacity r"
  "trail_length (store_trail r) = (if trail_length r < trail_capacity r then trail_length r + 1 else trail_length r)"
  "trail_x (store_trail r) = (if trail_length r < trail_capacity r then (trail_x r)[nat (trail_length r) := rocket_x r] else trail_x r)"
  "trail_y (store_trail r) = (if trail_length r < trail_capacity r then (trail_y r)[nat (trail_length r) := rocket_y r] else trail_y r)"
  by (simp_all add: store_trail_def)

lemma deactivate_far_fields:
  "rocket_x (deactivate_far r) = rocket_x r"
  "rocket_y (deactivate_far r) = rocket_y r"
  "rocket_vx (deactivate_far r) = rocket_vx r"
  "rocket_vy (deactivate_far r) = rocket_vy r"
  "rocket_ax (deactivate_far r) = rocket_ax r"
  "rocket_ay (deactivate_far r) = rocket_ay r"
  "trail_x (deactivate_far r) = trail_x r"
  "trail_y (deactivate_far r) = trail_y r"
  "trail_length (deactivate_far r) = trail_length r"
  "trail_capacity (deactivate_far r) = trail_capacity r"
  "active (deactivate_far r) = (if 50 < sqrt (rocket_x r * rocket_x r + rocket_y r * rocket_y r) then 0 else active r)"
  by (simp_all add: deactivate_far_def Let_def)

lemma integrate_rocket_active:
  assumes "active r \<noteq> 0"
  shows "rocket_x (integrate_rocket dt r) = rocket_x r + (rocket_vx r + rocket_ax r * dt) * dt"
    and "rocket_y (integrate_rocket dt r) = rocket_y r + (rocket_vy r + rocket_ay r * dt) * dt"
    and "rocket_vx (integrate_rocket dt r) = rocket_vx r + rocket_ax r * dt"
    and "rocket_vy (integrate_rocket dt r) = rocket_vy r + rocket_ay r * dt"
    and "trail_capacity (integrate_rocket dt r) = trail_capacity r"
    and "trail_length (integrate_rocket dt r) =
          (if trail_length r < trail_capacity r then trail_length r + 1 else trail_length r)"
    and "trail_x (integrate_rocket dt r) =
          (if trail_length r < trail_capacity r
           then (trail_x r)[nat (trail_length r) := rocket_x (integrate_rocket dt r)] else trail_x r)"
    and "trail_y (integrate_rocket dt r) =
          (if trail_length r < trail_capacity r
           then (trail_y r)[nat (trail_length r) := rocket_y (integrate_rocket dt r)] else trail_y r)"
    and "active (integrate_rocket dt r) =
          (if 50 < sqrt (rocket_x (integrate_rocket dt r) * rocket_x (integrate_rocket dt r)
                        + rocket_y (integrate_rocket dt r) * rocket_y (integrate_rocket dt r))
           then 0 else active r)"
  using assms
  by (simp_all add: integrate_rocket_def deactivate_far_fields store_trail_fields advance_rocket_fields)






lemma integrate_rocket_length_le:
  assumes "trail_length r \<le> trail_capacity r"
  shows "trail_length (integrate_rocket dt r) \<le> trail_capacity (integrate_rocket dt r)"
proof (cases "active r = 0")
  case True
  then show ?thesis using assms by (simp add: integrate_rocket_inactive)
next
  case False
  show ?thesis
    using assms by (simp add: integrate_rocket_active(5,6) [OF False])
qed

lemma rocket_forces_one_trail:
  "trail_x (rocket_forces_one g bodies n_bodies r) = trail_x r"
  "trail_y (rocket_forces_one g bodies n_bodies r) = trail_y r"
  "trail_length (rocket_forces_one g bodies n_bodies r) = trail_length r"
  "trail_capacity (rocket_forces_one g bodies n_bodies r) = trail_capacity r"
  "active (rocket_forces_one g bodies n_bodies r) = active r"
  "rocket_x (rocket_forces_one g bodies n_bodies r) = rocket_x r"
  "rocket_y (rocket_forces_one g bodies n_bodies r) = rocket_y r"
  "rocket_vx (rocket_forces_one g bodies n_bodies r) = rocket_vx r"
  "rocket_vy (rocket_forces_one g bodies n_bodies r) = rocket_vy r"
  by (rule rocket_forces_one_frame, simp)+


lemma update_rockets_length_le:
  assumes "j < length rockets" and "trail_length (rockets ! j) \<le> trail_capacity (rockets ! j)"
  shows "trail_length (update_rockets rockets n_rockets bodies n_bodies dt g ! j)
         \<le> trail_capacity (update_rockets rockets n_rockets bodies n_bodies dt g ! j)"
  using assms
  by (simp add: update_rockets_nth integrate_rocket_length_le rocket_forces_one_trail)

text \<open>
  Claim C6. In a call of \<open>update_rockets\<close>, for an active rocket \<open>i\<close> whose trail lies
  inside its buffers: with room left (\<open>trail_length < trail_capacity\<close>) the new position is
  stored at index \<open>trail_length\<close> of both buffers and \<open>trail_length\<close> grows by one; at
  capacity both buffers and \<open>trail_length\<close> stay as they are. The call is a total function
  (there is no error result), the capacity and the buffer sizes never change, and no
  rocket's \<open>trail_length\<close> comes to exceed its \<open>trail_capacity\<close>.
\<close>

theorem trail_store_or_drop:
  assumes "nat n_rockets \<le> length rockets" and "i < nat n_rockets"
    and "active (rockets ! i) \<noteq> 0" and "trail_ok (rockets ! i)"
  shows "(trail_length (rockets ! i) < trail_capacity (rockets ! i) \<longrightarrow>
            trail_x (update_rockets rockets n_rockets bodies n_bodies dt g ! i)
              = (trail_x (rockets ! i))[nat (trail_length (rockets ! i))
                   := rocket_x (update_rockets rockets n_rockets bodies n_bodies dt g ! i)]
          \<and> trail_y (update_rockets rockets n_rockets bodies n_bodies dt g ! i)
              = (trail_y (rockets ! i))[nat (trail_length (rockets ! i))
                   := rocket_y (update_rockets rockets n_rockets bodies n_bodies dt g ! i)]
          \<and> trail_x (update_rockets rockets n_rockets bodies n_bodies dt g ! i) ! nat (trail_length (rockets ! i))
              = rocket_x (update_rockets rockets n_rockets bodies n_bodies dt g ! i)
          \<and> trail_y (update_rockets rockets n_rockets bodies n_bodies dt g ! i) ! nat (trail_length (rockets ! i))
              = rocket_y (update_rockets rockets n_rockets bodies n_bodies dt g ! i)
          \<and> trail_length (update_rockets rockets n_rockets bodies n_bodies dt g ! i)
              = trail_length (rockets ! i) + 1)
       \<and> (trail_length (rockets ! i) = trail_capacity (rockets ! i) \<longrightarrow>
            trail_x (update_rockets rockets n_rockets bodies n_bodies dt g ! i) = trail_x (rockets ! i)
          \<and> trail_y (update_rockets rockets n_rockets bodies n_bodies dt g ! i) = trail_y (rockets ! i)
          \<and> trail_length (update_rockets rockets n_rockets bodies n_bodies dt g ! i) = trail_length (rockets ! i))
       \<and> trail_capacity (update_rockets rockets n_rockets bodies n_bodies dt g ! i) = trail_capacity (rockets ! i)
       \<and> length (trail_x (update_rockets rockets n_rockets bodies n_bodies dt g ! i)) = length (trail_x (rockets ! i))
       \<and> length (trail_y (update_rockets rockets n_rockets bodies n_bodies dt g ! i)) = length (trail_y (rockets ! i))
       \<and> length (update_rockets rockets n_rockets bodies n_bodies dt g) = length rockets
       \<and> (\<forall>j<length rockets. trail_length (rockets ! j) \<le> trail_capacity (rockets ! j) \<longrightarrow>
             trail_length (update_rockets rockets n_rockets bodies n_bodies dt g ! j)
             \<le> trail_capacity (update_rockets rockets n_rockets bodies n_bodies dt g ! j))"
proof -
  let ?r = "rocket_forces_one g bodies n_bodies (rockets ! i)"
  have i: "i < length rockets" using assms(1,2) by simp
  have nth: "update_rockets rockets n_rockets bodies n_bodies dt g ! i = integrate_rocket dt ?r"
    using i assms(2) by (simp add: update_rockets_nth)
  have act: "active ?r \<noteq> 0" using assms(3) by (simp add: rocket_forces_one_trail)
  note step = integrate_rocket_active(5,6,7,8) [OF act, of dt]
  have room: "nat (trail_length (rockets ! i)) < length (trail_x (rockets ! i))"
             "nat (trail_length (rockets ! i)) < length (trail_y (rockets ! i))"
    if "trail_length (rockets ! i) < trail_capacity (rockets ! i)"
    using that assms(4) unfolding trail_ok_def by linarith+
  have all: "\<forall>j<length rockets. trail_length (rockets ! j) \<le> trail_capacity (rockets ! j) \<longrightarrow>
             trail_length (update_rockets rockets n_rockets bodies n_bodies dt g ! j)
             \<le> trail_capacity (update_rockets rockets n_rockets bodies n_bodies dt g ! j)"
    using update_rockets_length_le by blast
  show ?thesis
    unfolding nth
    using room all
    by (simp add: step rocket_forces_one_trail update_rockets_length nth)
qed

section \<open>The rasterizer returns\<close>






















section \<open>The sample states\<close>

lemma sample_world_facts:
  "w_rockets sample_world = [sample_active, sample_frozen]"
  "w_bodies sample_world = [sample_body]"
  "length (w_img sample_world) = nat (WIDTH * HEIGHT)"
  "trail_ok sample_active" "trail_ok sample_frozen"
  "active sample_active = 1" "active sample_frozen = 0"
  "trail_length sample_active = 1" "trail_length sample_frozen = 1"
  by (simp_all add: sample_world_def sample_active_def sample_frozen_def trail_ok_def)

lemma sqrt_3600: "sqrt 3600 = 60"
  by (rule real_sqrt_unique) simp_all

lemma sample_active_forces:
  "rocket_forces_one 1 [sample_body] 1 sample_active = sample_active\<lparr>rocket_ax := 200, rocket_ay := 200\<rparr>"
  by (simp add: rocket_forces_one_def rocket_pull_def sample_active_def sample_body_def SOFTENING_def
      Let_def sqrt_9_100)

lemma sample_active_step:
  "integrate_rocket (1 / 100) (rocket_forces_one 1 [sample_body] 1 sample_active) =
     \<lparr>rocket_x = 60, rocket_y = 0, rocket_vx = 1100, rocket_vy = 0, rocket_ax = 200, rocket_ay = 200,
      active = 0, trail_x = [49, 60, 0], trail_y = [0, 0, 0], trail_length = 2, trail_capacity = 3\<rparr>"
  unfolding sample_active_forces
  by (simp add: integrate_rocket_def advance_rocket_def store_trail_def
      deactivate_far_def sample_active_def Let_def sqrt_3600)

lemma sample_full_step:
  "integrate_rocket (1 / 100) (rocket_forces_one 1 [] 0 sample_full) = sample_full"
  by (simp add: rocket_forces_one_def integrate_rocket_def advance_rocket_def store_trail_def
      deactivate_far_def sample_full_def Let_def)





theorem inactive_rocket_untouched_witness:
  "nat 2 \<le> length [sample_active, sample_frozen] \<and> (1::nat) < length [sample_active, sample_frozen]
   \<and> active ([sample_active, sample_frozen] ! 1) = 0
   \<and> compute_rocket_forces [sample_active, sample_frozen] 2 [sample_body] 1 1 ! 1 = sample_frozen
   \<and> update_rockets [sample_active, sample_frozen] 2 [sample_body] 1 (1 / 100) 1 ! 1 = sample_frozen
   \<and> update_rockets [sample_active, sample_frozen] 2 [sample_body] 1 (1 / 100) 1 ! 0 \<noteq> sample_active"
  using inactive_rocket_untouched [of 2 "[sample_active, sample_frozen]" 1 "[sample_body]" 1 1 "1 / 100"]
  by (simp add: sample_world_facts update_rockets_nth sample_active_step) (simp add: sample_active_def)

theorem trail_store_or_drop_witness:
  "nat 2 \<le> length [sample_active, sample_full] \<and> (0::nat) < nat 2 \<and> (1::nat) < nat 2
   \<and> active ([sample_active, sample_full] ! 0) \<noteq> 0 \<and> trail_ok ([sample_active, sample_full] ! 0)
   \<and> active ([sample_active, sample_full] ! 1) \<noteq> 0 \<and> trail_ok ([sample_active, sample_full] ! 1)
   \<and> trail_length ([sample_active, sample_full] ! 0) < trail_capacity ([sample_active, sample_full] ! 0)
   \<and> trail_x (update_rockets [sample_active, sample_full] 2 [sample_body] 1 (1 / 100) 1 ! 0) = [49, 60, 0]
   \<and> trail_y (update_rockets [sample_active, sample_full] 2 [sample_body] 1 (1 / 100) 1 ! 0) = [0, 0, 0]
   \<and> trail_length (update_rockets [sample_active, sample_full] 2 [sample_body] 1 (1 / 100) 1 ! 0) = 2
   \<and> trail_length ([sample_active, sample_full] ! 1) = trail_capacity ([sample_active, sample_full] ! 1)
   \<and> trail_x (update_rockets [sample_active, sample_full] 2 [sample_body] 1 (1 / 100) 1 ! 1) = [1, 1]
   \<and> trail_y (update_rockets [sample_active, sample_full] 2 [sample_body] 1 (1 / 100) 1 ! 1) = [0, 0]
   \<and> trail_length (update_rockets [sample_active, sample_full] 2 [sample_body] 1 (1 / 100) 1 ! 1) = 2"
  using trail_store_or_drop [of 2 "[sample_active, sample_full]" 0 "[sample_body]" 1 "1 / 100" 1]
    trail_store_or_drop [of 2 "[sample_active, sample_full]" 1 "[sample_body]" 1 "1 / 100" 1]
  by (simp add: sample_world_facts update_rockets_nth sample_active_step)
     (simp add: sample_active_def sample_full_def trail_ok_def)

section \<open>Trail capacity at setup\<close>

lemma new_rocket_fields:
  "trail_capacity (new_rocket x y vx vy) = STEPS"
  "trail_length (new_rocket x y vx vy) = 1"
  "active (new_rocket x y vx vy) = 1"
  "length (trail_x (new_rocket x y vx vy)) = nat STEPS"
  "length (trail_y (new_rocket x y vx vy)) = nat STEPS"
  "trail_x (new_rocket x y vx vy) ! 0 = x"
  "trail_y (new_rocket x y vx vy) ! 0 = y"
  "rocket_x (new_rocket x y vx vy) = x"
  "rocket_y (new_rocket x y vx vy) = y"
  by (simp_all add: new_rocket_def malloc_doubles_def STEPS_def)

lemma load_rockets_loop_inv:
  assumes "0 \<le> count" and "nat max_rockets \<le> length rockets"
    and "load_rockets_loop ls rockets count max_rockets = (rockets', count')"
  shows "count \<le> count' \<and> length rockets' = length rockets
       \<and> (\<forall>i. nat count \<le> i \<and> i < nat count' \<longrightarrow> (\<exists>x y vx vy. rockets' ! i = new_rocket x y vx vy))
       \<and> (\<forall>i<nat count. rockets' ! i = rockets ! i)"
  using assms
proof (induction ls arbitrary: rockets count)
  case Nil
  then show ?case by auto
next
  case (Cons l ls)
  show ?case
  proof (cases "count < max_rockets")
    case False
    then show ?thesis using Cons.prems by auto
  next
    case True
    show ?thesis
    proof (cases l)
      case None
      then have "load_rockets_loop ls rockets count max_rockets = (rockets', count')"
        using Cons.prems(3) True by simp
      from Cons.IH [OF Cons.prems(1,2) this] show ?thesis .
    next
      case (Some q)
      obtain x y vx vy where q: "q = (x, y, vx, vy)" by (cases q) auto
      let ?rs = "rockets[nat count := new_rocket x y vx vy]"
      have rec: "load_rockets_loop ls ?rs (count + 1) max_rockets = (rockets', count')"
        using Cons.prems(3) True Some q by simp
      have c1: "0 \<le> count + 1" using Cons.prems(1) by simp
      have l1: "nat max_rockets \<le> length ?rs" using Cons.prems(2) by simp
      note ih = Cons.IH [OF c1 l1 rec]
      have inb: "nat count < length rockets" using True Cons.prems(1,2) by linarith
      have at: "rockets' ! nat count = new_rocket x y vx vy"
      proof -
        have "nat count < nat (count + 1)" using Cons.prems(1) by simp
        then have "rockets' ! nat count = ?rs ! nat count" using ih by blast
        then show ?thesis using inb by simp
      qed
      have below: "rockets' ! i = rockets ! i" if "i < nat count" for i
      proof -
        have "i < nat (count + 1)" using that by simp
        then have "rockets' ! i = ?rs ! i" using ih by blast
        then show ?thesis using that by simp
      qed
      have new: "\<exists>x y vx vy. rockets' ! i = new_rocket x y vx vy" if "nat count \<le> i" "i < nat count'" for i
      proof (cases "i = nat count")
        case True
        then show ?thesis using at by blast
      next
        case False
        then have "nat (count + 1) \<le> i" using that(1) Cons.prems(1) by linarith
        then show ?thesis using ih that(2) by blast
      qed
      show ?thesis using ih new below by auto
    qed
  qed
qed

lemma load_rockets_new:
  assumes "nat max_rockets \<le> length rockets0"
    and "load_rockets src rockets0 max_rockets = (rockets, n_rockets)" and "i < nat n_rockets"
  shows "\<exists>x y vx vy. rockets ! i = new_rocket x y vx vy" and "length rockets = length rockets0"
proof -
  obtain ls where f: "src = Some ls"
    using assms(2,3) by (cases src) (auto simp: load_rockets_def)
  then have loop: "load_rockets_loop ls rockets0 0 max_rockets = (rockets, n_rockets)"
    using assms(2) by (simp add: load_rockets_def)
  note inv = load_rockets_loop_inv [OF _ assms(1) loop]
  show "\<exists>x y vx vy. rockets ! i = new_rocket x y vx vy"
    using inv assms(3) by simp
  show "length rockets = length rockets0" using inv by simp
qed

lemma init_rockets_default_new:
  assumes "0 < length rockets0"
    and "init_rockets_default rockets0 = (rockets, n_rockets)" and "i < nat n_rockets"
  shows "\<exists>x y vx vy. rockets ! i = new_rocket x y vx vy" and "length rockets = length rockets0"
proof -
  have "rockets ! i = new_rocket 2 0 0 (sqrt (80 * G_CONST))"
    using assms by (auto simp: init_rockets_default_def Let_def)
  then show "\<exists>x y vx vy. rockets ! i = new_rocket x y vx vy" by blast
  show "length rockets = length rockets0"
    using assms by (auto simp: init_rockets_default_def Let_def)
qed

lemma load_rockets_loop_count:
  assumes "load_rockets_loop ls rockets count max_rockets = (rockets', count')"
  shows "count' \<le> max_rockets \<or> count' = count"
  using assms
proof (induction ls arbitrary: rockets count)
  case Nil
  then show ?case by simp
next
  case (Cons l ls)
  show ?case
  proof (cases "count < max_rockets")
    case False
    then show ?thesis using Cons.prems by simp
  next
    case True
    show ?thesis
    proof (cases l)
      case None
      then have "load_rockets_loop ls rockets count max_rockets = (rockets', count')"
        using Cons.prems True by simp
      from Cons.IH [OF this] show ?thesis .
    next
      case (Some q)
      obtain x y vx vy where q: "q = (x, y, vx, vy)" by (cases q) auto
      have "load_rockets_loop ls (rockets[nat count := new_rocket x y vx vy]) (count + 1) max_rockets = (rockets', count')"
        using Cons.prems True Some q by simp
      from Cons.IH [OF this] show ?thesis using True by auto
    qed
  qed
qed

lemma main_steps_Suc_rocket:
  assumes "i < length (snd st)" and "i < nat n_rockets"
  shows "snd (main_step config n_bodies n_rockets st) ! i =
         integrate_rocket (cfg_dt config)
           (rocket_forces_one (cfg_g config) (update_bodies (fst st) n_bodies (cfg_dt config) (cfg_g config))
              n_bodies (snd st ! i))"
  using assms by (simp add: main_step_def Let_def update_rockets_nth)

lemma main_step_length: "length (snd (main_step config n_bodies n_rockets st)) = length (snd st)"
  by (simp add: main_step_def Let_def update_rockets_length)

lemma main_steps_length:
  "length (snd (main_steps k config n_bodies n_rockets st)) = length (snd st)"
  by (induction k) (simp_all add: main_step_length)

lemma integrate_rocket_still_active:
  assumes "active (integrate_rocket dt r) \<noteq> 0"
  shows "active r \<noteq> 0"
  using assms by (cases "active r = 0") (simp_all add: integrate_rocket_inactive)

lemma main_steps_trail:
  assumes "nat n_rockets \<le> length rockets" and "i < nat n_rockets"
    and "trail_length (rockets ! i) \<le> trail_capacity (rockets ! i)"
  shows "trail_capacity (snd (main_steps k config n_bodies n_rockets (bodies, rockets)) ! i)
           = trail_capacity (rockets ! i)
       \<and> (active (snd (main_steps k config n_bodies n_rockets (bodies, rockets)) ! i) \<noteq> 0 \<longrightarrow>
            trail_length (snd (main_steps k config n_bodies n_rockets (bodies, rockets)) ! i)
              = min (trail_length (rockets ! i) + int k) (trail_capacity (rockets ! i)))"
proof (induction k)
  case 0
  show ?case using assms(3) by simp
next
  case (Suc k)
  let ?st = "main_steps k config n_bodies n_rockets (bodies, rockets)"
  let ?r = "rocket_forces_one (cfg_g config)
              (update_bodies (fst ?st) n_bodies (cfg_dt config) (cfg_g config)) n_bodies (snd ?st ! i)"
  have i: "i < length (snd ?st)"
    using assms(1,2) by (simp add: main_steps_length)
  have nth: "snd (main_steps (Suc k) config n_bodies n_rockets (bodies, rockets)) ! i
             = integrate_rocket (cfg_dt config) ?r"
    using main_steps_Suc_rocket [OF i assms(2)] by simp
  have fr: "trail_capacity ?r = trail_capacity (snd ?st ! i)" "trail_length ?r = trail_length (snd ?st ! i)"
    "active ?r = active (snd ?st ! i)"
    by (simp_all add: rocket_forces_one_trail)
  have cap: "trail_capacity (integrate_rocket (cfg_dt config) ?r) = trail_capacity (rockets ! i)"
  proof (cases "active ?r = 0")
    case True
    then show ?thesis using Suc.IH fr by (simp add: integrate_rocket_inactive)
  next
    case False
    then show ?thesis using Suc.IH fr by (simp add: integrate_rocket_active(5))
  qed
  have len: "trail_length (integrate_rocket (cfg_dt config) ?r)
      = min (trail_length (rockets ! i) + int (Suc k)) (trail_capacity (rockets ! i))"
    if "active (integrate_rocket (cfg_dt config) ?r) \<noteq> 0"
  proof -
    have a: "active ?r \<noteq> 0" using that by (rule integrate_rocket_still_active)
    then have "trail_length (snd ?st ! i) = min (trail_length (rockets ! i) + int k) (trail_capacity (rockets ! i))"
      using Suc.IH fr by simp
    then show ?thesis
      using Suc.IH fr by (simp add: integrate_rocket_active(6) [OF a] min_def)
  qed
  show ?case unfolding nth using cap len by blast
qed

text \<open>
  Claim C7, as amended. A rocket created by \<open>init_rockets_default\<close> or by \<open>load_rockets\<close>
  gets two buffers of \<open>STEPS = 5000\<close> cells and the capacity 5000, whatever number of steps
  is configured, with its start position stored as sample 0 and \<open>trail_length = 1\<close>. While
  it is active after \<open>k\<close> passes of the main loop its \<open>trail_length\<close> is \<open>min (k + 1) 5000\<close>:
  the samples of the first 4999 steps are all recorded, later ones are not.
\<close>

theorem setup_trail_capacity:
  assumes "init_rockets_default rockets0 = (rockets, n_rockets)
           \<or> load_rockets src rockets0 max_rockets = (rockets, n_rockets)"
    and "0 < length rockets0" and "nat max_rockets \<le> length rockets0" and "i < nat n_rockets"
  shows "trail_capacity (rockets ! i) = STEPS \<and> STEPS = 5000
       \<and> length (trail_x (rockets ! i)) = nat STEPS \<and> length (trail_y (rockets ! i)) = nat STEPS
       \<and> trail_length (rockets ! i) = 1
       \<and> trail_x (rockets ! i) ! 0 = rocket_x (rockets ! i) \<and> trail_y (rockets ! i) ! 0 = rocket_y (rockets ! i)
       \<and> active (rockets ! i) = 1
       \<and> (active (snd (main_steps k config n_bodies n_rockets (bodies, rockets)) ! i) \<noteq> 0 \<longrightarrow>
            trail_length (snd (main_steps k config n_bodies n_rockets (bodies, rockets)) ! i)
              = min (1 + int k) STEPS)"
proof -
  have new: "\<exists>x y vx vy. rockets ! i = new_rocket x y vx vy" and len: "length rockets = length rockets0"
    using assms(1)
      init_rockets_default_new [OF assms(2) _ assms(4), of rockets]
      load_rockets_new [OF assms(3) _ assms(4), of src rockets]
    by blast+
  then obtain x y vx vy where r: "rockets ! i = new_rocket x y vx vy" by blast
  have n: "nat n_rockets \<le> length rockets"
  proof -
    from assms(1) show ?thesis
    proof
      assume "init_rockets_default rockets0 = (rockets, n_rockets)"
      then have "n_rockets = 1" by (auto simp: init_rockets_default_def Let_def)
      then show ?thesis using assms(2) len by (cases rockets0) simp_all
    next
      assume l: "load_rockets src rockets0 max_rockets = (rockets, n_rockets)"
      show ?thesis
      proof (cases src)
        case None
        then show ?thesis using l by (simp add: load_rockets_def)
      next
        case (Some ls)
        then have loop: "load_rockets_loop ls rockets0 0 max_rockets = (rockets, n_rockets)"
          using l by (simp add: load_rockets_def)
        have "n_rockets \<le> max_rockets \<or> n_rockets \<le> 0"
          using load_rockets_loop_count [OF loop] by auto
        then show ?thesis using assms(3) len by linarith
      qed
    qed
  qed
  have le: "trail_length (rockets ! i) \<le> trail_capacity (rockets ! i)"
    by (simp add: r new_rocket_fields STEPS_def)
  show ?thesis
    using main_steps_trail [OF n assms(4) le, of k config n_bodies bodies]
    by (simp add: r new_rocket_fields) (simp add: STEPS_def)
qed

lemma resting_step:
  assumes "rocket_x r = 2 \<and> rocket_y r = 0 \<and> rocket_vx r = 0 \<and> rocket_vy r = 0 \<and> active r = 1"
  shows "rocket_x (integrate_rocket dt (rocket_forces_one g bodies 0 r)) = 2
       \<and> rocket_y (integrate_rocket dt (rocket_forces_one g bodies 0 r)) = 0
       \<and> rocket_vx (integrate_rocket dt (rocket_forces_one g bodies 0 r)) = 0
       \<and> rocket_vy (integrate_rocket dt (rocket_forces_one g bodies 0 r)) = 0
       \<and> active (integrate_rocket dt (rocket_forces_one g bodies 0 r)) = 1"
proof -
  let ?r = "rocket_forces_one g bodies 0 r"
  have a: "rocket_ax ?r = 0" "rocket_ay ?r = 0"
    using assms by (simp_all add: rocket_forces_one_def)
  have act: "active ?r \<noteq> 0" using assms by (simp add: rocket_forces_one_trail)
  show ?thesis
    using assms by (simp add: integrate_rocket_active [OF act] a rocket_forces_one_trail)
qed

lemma resting_run:
  assumes "nat n_rockets \<le> length rockets" and "i < nat n_rockets"
    and "rocket_x (rockets ! i) = 2 \<and> rocket_y (rockets ! i) = 0 \<and> rocket_vx (rockets ! i) = 0
         \<and> rocket_vy (rockets ! i) = 0 \<and> active (rockets ! i) = 1"
  shows "rocket_x (snd (main_steps k config 0 n_rockets (bodies, rockets)) ! i) = 2
       \<and> rocket_y (snd (main_steps k config 0 n_rockets (bodies, rockets)) ! i) = 0
       \<and> rocket_vx (snd (main_steps k config 0 n_rockets (bodies, rockets)) ! i) = 0
       \<and> rocket_vy (snd (main_steps k config 0 n_rockets (bodies, rockets)) ! i) = 0
       \<and> active (snd (main_steps k config 0 n_rockets (bodies, rockets)) ! i) = 1"
proof (induction k)
  case 0
  show ?case using assms(3) by simp
next
  case (Suc k)
  let ?st = "main_steps k config 0 n_rockets (bodies, rockets)"
  have i: "i < length (snd ?st)"
    using assms(1,2) by (simp add: main_steps_length)
  show ?case
    using resting_step [OF Suc.IH] main_steps_Suc_rocket [OF i assms(2), of config 0]
    by simp
qed

lemma load_one_rocket:
  "load_rockets (Some [None, Some (2, 0, 0, 0)]) (replicate 10 sample_frozen) 10
     = ((replicate 10 sample_frozen)[0 := new_rocket 2 0 0 0], 1)"
  by (simp add: load_rockets_def)

theorem setup_trail_capacity_witness:
  "load_rockets (Some [None, Some (2, 0, 0, 0)]) (replicate 10 sample_frozen) 10
     = ((replicate 10 sample_frozen)[0 := new_rocket 2 0 0 0], 1)
   \<and> 0 < length (replicate 10 sample_frozen) \<and> nat 10 \<le> length (replicate 10 sample_frozen)
   \<and> (0::nat) < nat 1
   \<and> trail_capacity ((replicate 10 sample_frozen)[0 := new_rocket 2 0 0 0] ! 0) = 5000
   \<and> active (snd (main_steps 7 default_config 0 1 ([], (replicate 10 sample_frozen)[0 := new_rocket 2 0 0 0])) ! 0) \<noteq> 0
   \<and> trail_length (snd (main_steps 7 default_config 0 1 ([], (replicate 10 sample_frozen)[0 := new_rocket 2 0 0 0])) ! 0) = 8"
proof -
  let ?rs = "(replicate 10 sample_frozen)[0 := new_rocket 2 0 0 0]"
  have h1: "init_rockets_default (replicate 10 sample_frozen) = (?rs, 1)
            \<or> load_rockets (Some [None, Some (2, 0, 0, 0)]) (replicate 10 sample_frozen) 10 = (?rs, 1)"
    using load_one_rocket by blast
  have h2: "0 < length (replicate 10 sample_frozen)" by simp
  have h3: "nat 10 \<le> length (replicate 10 sample_frozen)" by simp
  have h4: "(0::nat) < nat 1" by simp
  have rest: "active (snd (main_steps 7 default_config 0 1 ([], ?rs)) ! 0) = 1"
    using resting_run [of 1 ?rs 0 7 default_config "[]"]
    by (simp add: new_rocket_def)
  show ?thesis
    using setup_trail_capacity [OF h1 h2 h3 h4, of 7 default_config 0 "[]"] rest load_one_rocket
    by (simp add: STEPS_def)
qed

text \<open>
  Claim C7 as stated fails: the capacity is 5000, not the 5001 samples of a run of the
  default 5000 steps; a rocket at rest at \<open>(2, 0)\<close> with no body around stays active for
  all 5000 steps and ends with 5000 samples, its last position not recorded.
\<close>

theorem setup_capacity_counterexample:
  "trail_capacity (fst (init_rockets_default (replicate 10 (new_rocket 0 0 0 0))) ! 0) = 5000
   \<and> trail_capacity (fst (load_rockets (Some [Some (2, 0, 0, 0)]) (replicate 10 (new_rocket 0 0 0 0)) 10) ! 0) = 5000
   \<and> cfg_steps default_config + 1 = 5001
   \<and> active (snd (main_steps 5000 default_config 0 1
         ([], fst (load_rockets (Some [Some (2, 0, 0, 0)]) (replicate 10 (new_rocket 0 0 0 0)) 10))) ! 0) = 1
   \<and> trail_length (snd (main_steps 5000 default_config 0 1
         ([], fst (load_rockets (Some [Some (2, 0, 0, 0)]) (replicate 10 (new_rocket 0 0 0 0)) 10))) ! 0) = 5000"
proof -
  let ?rs = "(replicate 10 (new_rocket 0 0 0 0))[0 := new_rocket 2 0 0 0]"
  have ld: "fst (load_rockets (Some [Some (2, 0, 0, 0)]) (replicate 10 (new_rocket 0 0 0 0)) 10) = ?rs"
    by (simp add: load_rockets_def)
  have c1: "trail_capacity (fst (init_rockets_default (replicate 10 (new_rocket 0 0 0 0))) ! 0) = 5000"
    by (simp add: init_rockets_default_def Let_def new_rocket_fields STEPS_def)
  have c2: "trail_capacity (?rs ! 0) = 5000"
    by (simp add: new_rocket_fields STEPS_def)
  have c3: "cfg_steps default_config + 1 = 5001"
    by (simp add: default_config_def STEPS_def)
  have rest: "active (snd (main_steps 5000 default_config 0 1 ([], ?rs)) ! 0) = 1"
    using resting_run [of 1 ?rs 0 5000 default_config "[]"]
    by (simp add: new_rocket_def)
  have "trail_length (snd (main_steps 5000 default_config 0 1 ([], ?rs)) ! 0)
          = min (trail_length (?rs ! 0) + int 5000) (trail_capacity (?rs ! 0))"
    using main_steps_trail [of 1 ?rs 0 5000 default_config 0 "[]"] rest
    by (simp add: new_rocket_fields STEPS_def)
  then have c5: "trail_length (snd (main_steps 5000 default_config 0 1 ([], ?rs)) ! 0) = 5000"
    by (simp add: new_rocket_fields STEPS_def)
  show ?thesis
    unfolding ld using c1 c2 c3 rest c5 by blast
qed

section \<open>The binary trajectory dump\<close>

lemma le_bytes_length: "length (le_bytes n v) = n"
  by (simp add: le_bytes_def)

lemma le_bytes_Suc:
  "le_bytes (Suc n) v = word_of_int v # le_bytes n (drop_bit 8 v)"
proof -
  have "[0..<Suc n] = 0 # map Suc [0..<n]"
    by (simp add: upt_conv_Cons map_Suc_upt del: upt_Suc)
  then show ?thesis
    by (simp add: le_bytes_def comp_def drop_bit_drop_bit add.commute del: upt_Suc)
qed

lemma le_value_le_bytes: "le_value (le_bytes n v) = take_bit (8 * n) v"
proof (induction n arbitrary: v)
  case 0
  show ?case by (simp add: le_value_def le_bytes_def)
next
  case (Suc n)
  have "le_value (le_bytes (Suc n) v) = uint (word_of_int v :: byte) + 256 * le_value (le_bytes n (drop_bit 8 v))"
    by (simp add: le_bytes_Suc le_value_def)
  also have "\<dots> = take_bit 8 v + 256 * take_bit (8 * n) (drop_bit 8 v)"
    by (simp add: Suc.IH uint_word_of_int_eq)
  also have "\<dots> = take_bit (8 * Suc n) v"
  proof -
    have "v mod (2 ^ 8 * 2 ^ (8 * n)) = 2 ^ 8 * (v div 2 ^ 8 mod 2 ^ (8 * n)) + v mod 2 ^ 8"
      by (rule zmod_zmult2_eq) simp
    then show ?thesis
      by (simp add: take_bit_eq_mod drop_bit_eq_div power_add)
  qed
  finally show ?case .
qed

lemma fread_int_bytes:
  assumes "int32_range v"
  shows "fread_int (int_bytes v @ rest) = Some (v, rest)"
proof -
  have "(word_of_int (take_bit 32 v) :: 32 word) = word_of_int v"
    by (simp add: of_int_take_bit take_bit_word_eq_self)
  moreover have "sint (word_of_int v :: 32 word) = v"
    using assms by (simp add: signed_of_int int32_range_def signed_take_bit_int_eq_self)
  ultimately show ?thesis
    by (simp add: fread_int_def int_bytes_def le_bytes_length le_value_le_bytes)
qed

lemma double_bytes_length: "length (double_bytes d) = 8"
  by (simp add: double_bytes_def le_bytes_length)

lemma double_bytes_value: "word_of_int (le_value (double_bytes d)) = d"
proof -
  have "(word_of_int (take_bit 64 (uint d)) :: 64 word) = word_of_int (uint d)"
    by (simp add: of_int_take_bit take_bit_word_eq_self)
  then show ?thesis
    by (simp add: double_bytes_def le_value_le_bytes)
qed

lemma concat_double_bytes_length: "length (concat (map double_bytes ds)) = 8 * length ds"
  by (induction ds) (simp_all add: double_bytes_length)

lemma double_chunk:
  assumes "k < length ds"
  shows "take 8 (drop (8 * k) (concat (map double_bytes ds) @ rest)) = double_bytes (ds ! k)"
  using assms
proof (induction ds arbitrary: k)
  case Nil
  then show ?case by simp
next
  case (Cons d ds)
  show ?case
  proof (cases k)
    case 0
    then show ?thesis by (simp add: double_bytes_length)
  next
    case (Suc j)
    then have "j < length ds" using Cons.prems by simp
    from Cons.IH [OF this] show ?thesis
      by (simp add: Suc double_bytes_length)
  qed
qed

lemma fread_doubles_bytes:
  "fread_doubles (length ds) (concat (map double_bytes ds) @ rest) = Some (ds, rest)"
proof -
  have "map (\<lambda>k. word_of_int (le_value (take 8 (drop (8 * k) (concat (map double_bytes ds) @ rest)))))
          [0..<length ds] = ds"
    by (rule nth_equalityI) (simp_all add: double_chunk double_bytes_value del: drop_append take_append)
  then show ?thesis
    by (simp add: fread_doubles_def concat_double_bytes_length)
qed

lemma read_trails_loop_records:
  assumes "\<forall>r\<in>set rs. trail_ok r \<and> int32_range (trail_length r)"
  shows "read_trails_loop (length rs) (concat (map trail_record_bytes rs) @ rest)
         = map (\<lambda>r. (take (nat (trail_length r)) (trail_x r), take (nat (trail_length r)) (trail_y r))) rs"
  using assms
proof (induction rs)
  case Nil
  show ?case by simp
next
  case (Cons r rs)
  let ?n = "nat (trail_length r)"
  let ?xs = "take ?n (trail_x r)" and ?ys = "take ?n (trail_y r)"
  let ?tail = "concat (map trail_record_bytes rs) @ rest"
  have ok: "trail_ok r" and rng: "int32_range (trail_length r)" using Cons.prems by simp_all
  have "?n \<le> length (trail_x r)" and "?n \<le> length (trail_y r)"
    using ok unfolding trail_ok_def by linarith+
  then have lx: "length ?xs = ?n" and ly: "length ?ys = ?n"
    by simp_all
  have nonneg: "\<not> trail_length r < 0" using ok by (simp add: trail_ok_def)
  have bytes: "concat (map trail_record_bytes (r # rs)) @ rest
      = int_bytes (trail_length r) @ (concat (map double_bytes ?xs) @ (concat (map double_bytes ?ys) @ ?tail))"
    by (simp add: trail_record_bytes_def)
  have rx: "fread_doubles ?n (concat (map double_bytes ?xs) @ (concat (map double_bytes ?ys) @ ?tail))
            = Some (?xs, concat (map double_bytes ?ys) @ ?tail)"
    using fread_doubles_bytes [of ?xs] lx by simp
  have ry: "fread_doubles ?n (concat (map double_bytes ?ys) @ ?tail) = Some (?ys, ?tail)"
    using fread_doubles_bytes [of ?ys] ly by simp
  have ih: "read_trails_loop (length rs) ?tail
         = map (\<lambda>r. (take (nat (trail_length r)) (trail_x r), take (nat (trail_length r)) (trail_y r))) rs"
    using Cons.IH Cons.prems by simp
  show ?case
    unfolding bytes
    by (simp add: fread_int_bytes [OF rng] nonneg rx ry ih)
qed

lemma map_nth_take:
  assumes "n \<le> length xs"
  shows "map (\<lambda>i. f (xs ! i)) [0..<n] = map f (take n xs)"
  using assms by (intro nth_equalityI) simp_all

text \<open>
  Claim C9. For \<open>n\<close> rockets whose trails lie inside their buffers (counts and lengths
  being values of \<open>int\<close>), the file \<open>save_rocket_trails_bin\<close> writes is read back by the
  plotting tool's reader as exactly the \<open>n\<close> pairs of sample lists, in order: the first
  \<open>trail_length\<close> cells of \<open>trail_x\<close> and of \<open>trail_y\<close> of each rocket, bit for bit.
\<close>

theorem trails_dump_round_trip:
  assumes "0 \<le> n" and "int32_range n" and "nat n \<le> length rockets"
    and "\<forall>r\<in>set (take (nat n) rockets). trail_ok r \<and> int32_range (trail_length r)"
  shows "save_rocket_trails_bin True rockets n \<noteq> None
       \<and> plot_read_trails (the (save_rocket_trails_bin True rockets n))
           = Some (map (\<lambda>r. (take (nat (trail_length r)) (trail_x r), take (nat (trail_length r)) (trail_y r)))
                     (take (nat n) rockets))"
proof -
  let ?rs = "take (nat n) rockets"
  have len: "length ?rs = nat n" using assms(3) by simp
  have dump: "save_rocket_trails_bin True rockets n = Some (int_bytes n @ concat (map trail_record_bytes ?rs))"
    using map_nth_take [OF assms(3), of trail_record_bytes] by (simp add: save_rocket_trails_bin_def)
  have "read_trails_loop (nat n) (concat (map trail_record_bytes ?rs) @ [])
         = map (\<lambda>r. (take (nat (trail_length r)) (trail_x r), take (nat (trail_length r)) (trail_y r))) ?rs"
    using read_trails_loop_records [OF assms(4), of "[]"] len by simp
  then show ?thesis
    by (simp add: dump plot_read_trails_def fread_int_bytes [OF assms(2)])
qed

theorem trails_dump_round_trip_witness:
  "(0::int) \<le> 2 \<and> int32_range 2
   \<and> nat 2 \<le> length
        [\<lparr>rocket_x = 0x4000000000000000, rocket_y = 0, rocket_vx = 0, rocket_vy = 0, rocket_ax = 0, rocket_ay = 0,
          active = 1, trail_x = [0x3FF0000000000000, 0x4000000000000000, 0], trail_y = [0, 0xBFF0000000000000, 0],
          trail_length = 2, trail_capacity = 3\<rparr>,
         \<lparr>rocket_x = 0, rocket_y = 0, rocket_vx = 0, rocket_vy = 0, rocket_ax = 0, rocket_ay = 0,
          active = 0, trail_x = [0x4008000000000000], trail_y = [0x7FF8000000000001],
          trail_length = 1, trail_capacity = 1\<rparr> :: 64 word rocket]
   \<and> plot_read_trails (the (save_rocket_trails_bin True
        [\<lparr>rocket_x = 0x4000000000000000, rocket_y = 0, rocket_vx = 0, rocket_vy = 0, rocket_ax = 0, rocket_ay = 0,
          active = 1, trail_x = [0x3FF0000000000000, 0x4000000000000000, 0], trail_y = [0, 0xBFF0000000000000, 0],
          trail_length = 2, trail_capacity = 3\<rparr>,
         \<lparr>rocket_x = 0, rocket_y = 0, rocket_vx = 0, rocket_vy = 0, rocket_ax = 0, rocket_ay = 0,
          active = 0, trail_x = [0x4008000000000000], trail_y = [0x7FF8000000000001],
          trail_length = 1, trail_capacity = 1\<rparr>] 2))
     = Some [([0x3FF0000000000000, 0x4000000000000000], [0, 0xBFF0000000000000]),
             ([0x4008000000000000], [0x7FF8000000000001])]"
  using trails_dump_round_trip [of 2
        "[\<lparr>rocket_x = 0x4000000000000000, rocket_y = 0, rocket_vx = 0, rocket_vy = 0, rocket_ax = 0, rocket_ay = 0,
          active = 1, trail_x = [0x3FF0000000000000, 0x4000000000000000, 0], trail_y = [0, 0xBFF0000000000000, 0],
          trail_length = 2, trail_capacity = 3\<rparr>,
         \<lparr>rocket_x = 0, rocket_y = 0, rocket_vx = 0, rocket_vy = 0, rocket_ax = 0, rocket_ay = 0,
          active = 0, trail_x = [0x4008000000000000], trail_y = [0x7FF8000000000001],
          trail_length = 1, trail_capacity = 1\<rparr> :: 64 word rocket]"]
  by (simp add: int32_range_def trail_ok_def)

section \<open>The image encoder\<close>

lemma and_255: "(v::int) AND 255 = v mod 256"
proof -
  have "(mask 8 :: int) = 255" by (simp add: mask_eq_exp_minus_1)
  then show ?thesis
    using take_bit_eq_mask [of 8 v] by (simp add: take_bit_eq_mod)
qed

lemma bmp_header_eq_fields: "bmp_header w h = bmp_header_fields w h"
  by (simp add: bmp_header_def bmp_header_fields_def Let_def and_255 drop_bit_eq_div u32_le_def u16_le_def row_stride_def)

lemma and_neg_4: "(v::int) AND - 4 = 4 * (v div 4)"
proof -
  have m: "(- 4 :: int) = NOT (mask 2)" by (simp add: mask_eq_exp_minus_1)
  have s: "Suc (Suc (n - 2)) = n" if "2 \<le> n" for n :: nat
    using that by arith
  have "v AND NOT (mask 2) = push_bit 2 (drop_bit 2 v)"
    by (rule bit_eqI) (auto simp: bit_simps s not_less)
  then show ?thesis
    unfolding m by (simp add: push_bit_eq_mult drop_bit_eq_div)
qed

lemma row_stride_eq: "row_stride w = 4 * ((w * 3 + 3) div 4)"
  by (simp add: row_stride_def and_neg_4)

lemma row_stride_props:
  "row_stride w mod 4 = 0" "3 * w \<le> row_stride w" "row_stride w < 3 * w + 4"
  unfolding row_stride_eq by presburger+

lemma upto_as_upt: "[0..int n - 1] = map int [0..<n]"
proof (induction n)
  case 0
  show ?case by simp
next
  case (Suc n)
  have "[0..int (Suc n) - 1] = [0..int n - 1] @ [int n]"
    using upto_rec2 [of 0 "int n"] by simp
  then show ?case by (simp add: Suc.IH)
qed

lemma upto_nat: "0 \<le> h \<Longrightarrow> [0..h - 1] = map int [0..<nat h]"
  using upto_as_upt [of "nat h"] by simp

lemma bmp_row_spec:
  assumes "0 \<le> w"
  shows "bmp_row img w (row_stride w - w * 3) (int y) =
         concat (map (\<lambda>x. [pix_b (img ! (y * nat w + x)), pix_g (img ! (y * nat w + x)),
                              pix_r (img ! (y * nat w + x))]) [0..<nat w])
         @ replicate (nat (row_stride w - 3 * w)) 0"
proof -
  have idx: "nat (int y * w + int x) = y * nat w + x" for x
    using assms by (simp add: nat_add_distrib nat_mult_distrib)
  have pad: "(if row_stride w - w * 3 > 0 then replicate (nat (row_stride w - w * 3)) (0::byte) else [])
             = replicate (nat (row_stride w - 3 * w)) 0"
    by (simp add: mult.commute)
  show ?thesis
    unfolding bmp_row_def pad upto_nat [OF assms]
    by (simp add: comp_def pixel_bytes_def idx)
qed

lemma write_bmp_pixels:
  assumes "0 \<le> w" and "0 \<le> h"
  shows "concat (map (bmp_row img w (row_stride w - w * 3)) (rev [0..h - 1])) = spec_bmp_pixels img w h"
  unfolding spec_bmp_pixels_def upto_nat [OF assms(2)]
  by (simp add: rev_map [symmetric] comp_def bmp_row_spec [OF assms(1)])

lemma spec_bmp_pixels_length:
  assumes "0 \<le> w" and "0 \<le> h"
  shows "length (spec_bmp_pixels img w h) = nat (row_stride w * h)"
proof -
  have le: "3 * w \<le> row_stride w" by (rule row_stride_props)
  have row: "length (concat (map (\<lambda>x. [pix_b (img ! (y * nat w + x)), pix_g (img ! (y * nat w + x)),
                              pix_r (img ! (y * nat w + x))]) [0..<nat w])
         @ replicate (nat (row_stride w - 3 * w)) (0::byte)) = nat (row_stride w)" for y
  proof -
    have "length (concat (map (\<lambda>x. [pix_b (img ! (y * nat w + x)), pix_g (img ! (y * nat w + x)),
                              pix_r (img ! (y * nat w + x))]) [0..<nat w])) = 3 * nat w"
      by (simp add: length_concat comp_def sum_list_triv)
    then show ?thesis using le assms(1) by simp
  qed
  have "length (spec_bmp_pixels img w h) = nat h * nat (row_stride w)"
    unfolding spec_bmp_pixels_def length_concat map_map comp_def row
    by (simp add: sum_list_triv)
  then show ?thesis
    using assms le by (simp add: nat_mult_distrib mult.commute)
qed

text \<open>
  Claim C10, as amended. For a width and a height above zero whose file size fits an
  \<open>int\<close>, \<open>write_bmp\<close> emits the 54-byte header \<open>BM\<close>, \<open>u32\<close> file size \<open>54 + rowStride \<cdot> h\<close>,
  two reserved zero \<open>u16\<close> fields (four zero bytes), \<open>u32\<close> offset 54, \<open>u32\<close> header size 40,
  width, height, \<open>u16\<close> planes 1, \<open>u16\<close> bits 24, \<open>u32\<close> compression 0, \<open>u32\<close> image size
  \<open>rowStride \<cdot> h\<close> and four zero \<open>u32\<close> fields, all little-endian, with
  \<open>rowStride = (w \<cdot> 3 + 3) & ~3\<close> the least multiple of four not below \<open>3 \<cdot> w\<close>; then the rows
  from the bottom one up, each \<open>w\<close> triples blue, green, red and zero bytes up to
  \<open>rowStride\<close>.
\<close>

theorem write_bmp_layout:
  assumes "0 < w" and "0 < h" and "54 + row_stride w * h < 2 ^ 31" and "nat (w * h) \<le> length img"
  shows "write_bmp True img w h = Some (bmp_header_fields w h @ spec_bmp_pixels img w h)
       \<and> length (bmp_header_fields w h) = 54
       \<and> row_stride w = (w * 3 + 3) AND NOT 3
       \<and> row_stride w mod 4 = 0 \<and> 3 * w \<le> row_stride w \<and> row_stride w < 3 * w + 4
       \<and> length (spec_bmp_pixels img w h) = nat (row_stride w * h)
       \<and> 0 \<le> 54 + row_stride w * h"
proof -
  have w: "0 \<le> w" and h: "0 \<le> h" using assms(1,2) by simp_all
  have out: "write_bmp True img w h = Some (bmp_header_fields w h @ spec_bmp_pixels img w h)"
    using write_bmp_pixels [OF w h, of img]
    by (simp add: write_bmp_def Let_def bmp_header_eq_fields row_stride_def)
  have hl: "length (bmp_header_fields w h) = 54"
    by (simp add: bmp_header_fields_def u32_le_def u16_le_def)
  have pos: "0 \<le> 54 + row_stride w * h"
    using row_stride_props(2) [of w] assms(1,2) by (simp add: add_nonneg_nonneg)
  show ?thesis
    using out hl row_stride_props [of w] spec_bmp_pixels_length [OF w h, of img] pos
    by (simp add: row_stride_def)
qed

lemma upt_2: "[0..<2] = [0, Suc 0]"
  by (simp add: numeral_2_eq_2)

lemma replicate_2: "replicate 2 x = [x, x]"
  by (simp add: numeral_2_eq_2)

theorem write_bmp_layout_witness:
  "(0::int) < 2 \<and> (54::int) + row_stride 2 * 2 < 2 ^ 31
   \<and> nat (2 * 2) \<le> length
        [\<lparr>pix_b = 1, pix_g = 2, pix_r = 3\<rparr>, \<lparr>pix_b = 4, pix_g = 5, pix_r = 6\<rparr>,
         \<lparr>pix_b = 7, pix_g = 8, pix_r = 9\<rparr>, \<lparr>pix_b = 10, pix_g = 11, pix_r = 12\<rparr>]
   \<and> write_bmp True
        [\<lparr>pix_b = 1, pix_g = 2, pix_r = 3\<rparr>, \<lparr>pix_b = 4, pix_g = 5, pix_r = 6\<rparr>,
         \<lparr>pix_b = 7, pix_g = 8, pix_r = 9\<rparr>, \<lparr>pix_b = 10, pix_g = 11, pix_r = 12\<rparr>] 2 2
     = Some ([66, 77, 70, 0, 0, 0, 0, 0, 0, 0, 54, 0, 0, 0, 40, 0, 0, 0, 2, 0, 0, 0, 2, 0, 0, 0,
              1, 0, 24, 0, 0, 0, 0, 0, 16, 0, 0, 0, 0, 0, 0, 0, 0, 0, 0, 0, 0, 0, 0, 0, 0, 0, 0, 0]
             @ [7, 8, 9, 10, 11, 12, 0, 0, 1, 2, 3, 4, 5, 6, 0, 0])"
  using write_bmp_layout [of 2 2
        "[\<lparr>pix_b = 1, pix_g = 2, pix_r = 3\<rparr>, \<lparr>pix_b = 4, pix_g = 5, pix_r = 6\<rparr>,
         \<lparr>pix_b = 7, pix_g = 8, pix_r = 9\<rparr>, \<lparr>pix_b = 10, pix_g = 11, pix_r = 12\<rparr>]"]
  by (simp add: row_stride_def bmp_header_fields_def spec_bmp_pixels_def u32_le_def u16_le_def upt_2 replicate_2)

text \<open>
  Claim C10 as stated fails: a header with two reserved \<open>u32\<close> fields is 58 bytes long and
  has the offset field four bytes later than the file \<open>write_bmp\<close> writes (here for one
  pixel).
\<close>

theorem bmp_reserved_fields_counterexample:
  "write_bmp True [\<lparr>pix_b = 1, pix_g = 2, pix_r = 3\<rparr>] 1 1
     = Some ([66, 77, 58, 0, 0, 0, 0, 0, 0, 0, 54, 0, 0, 0, 40, 0, 0, 0, 1, 0, 0, 0, 1, 0, 0, 0,
              1, 0, 24, 0, 0, 0, 0, 0, 4, 0, 0, 0, 0, 0, 0, 0, 0, 0, 0, 0, 0, 0, 0, 0, 0, 0, 0, 0]
             @ [1, 2, 3, 0])
   \<and> spec_bmp_header 1 1 @ spec_bmp_pixels [\<lparr>pix_b = 1, pix_g = 2, pix_r = 3\<rparr>] 1 1
     = [66, 77, 58, 0, 0, 0, 0, 0, 0, 0, 0, 0, 0, 0, 54, 0, 0, 0, 40, 0, 0, 0, 1, 0, 0, 0, 1, 0, 0, 0,
        1, 0, 24, 0, 0, 0, 0, 0, 4, 0, 0, 0, 0, 0, 0, 0, 0, 0, 0, 0, 0, 0, 0, 0, 0, 0, 0, 0]
       @ [1, 2, 3, 0]
   \<and> length (spec_bmp_header 1 1) = 58
   \<and> write_bmp True [\<lparr>pix_b = 1, pix_g = 2, pix_r = 3\<rparr>] 1 1
       \<noteq> Some (spec_bmp_header 1 1 @ spec_bmp_pixels [\<lparr>pix_b = 1, pix_g = 2, pix_r = 3\<rparr>] 1 1)"
  by (simp add: write_bmp_def bmp_header_def bmp_row_def pixel_bytes_def Let_def
      spec_bmp_header_def spec_bmp_pixels_def row_stride_def u32_le_def u16_le_def)

section \<open>The plotting tool's samples\<close>

text \<open>
  The bits \<open>3FE28F5C28F5C28F\<close> are the \<open>double\<close> nearest to 0.58, and the bits of an infinity
  have no value. A trail of one finite sample in view is drawn as its two markers, at the
  pixel the projection gives; with no trail read the image is the background.
\<close>

lemma double_value_0_58: "double_value 0x3FE28F5C28F5C28F = Some (5224175567749775 / 2 ^ 53)"
  by (simp add: double_value_def Let_def power_int_def power_one_over)

lemma double_value_infinity: "double_value 0x7FF0000000000000 = None"
  by (simp add: double_value_def Let_def)

lemma plot_trail_single:
  assumes "double_value wx = Some x" and "double_value wy = Some y"
    and "plot_px x scale = Some px" and "plot_py y scale = Some py"
  shows "plot_trail scale i ([wx], [wy]) img =
     Some (draw_circle (draw_circle img px py 4 100 255 100) px py 6
             (word_of_int (fst (plot_colors ! (i mod 10))))
             (word_of_int (fst (snd (plot_colors ! (i mod 10)))))
             (word_of_int (snd (snd (plot_colors ! (i mod 10))))))"
  using assms by (simp add: plot_trail_def split: prod.split)

lemma plot_trail_empty: "plot_trail scale i ([], ty) img = None"
  by (simp add: plot_trail_def)

lemma plot_draw_trails_none: "plot_draw_trails [] = Some plot_background"
  by (simp add: plot_draw_trails_def)

end
